theory Spec2Isabelle
  imports
    Complex_Main
    "HOL-Library.Word"
    "HOL-Library.Signed_Division"
    "HOL-Library.List_Lexorder"
    "HOL-Library.Char_ord"
begin

section \<open>The engine's public constants\<close>

text \<open>
  Modelled from the spec: the result codes and seek modes of the engine's public header
  (\<^verbatim>\<open>lsm.h\<close>), which the binding includes and which is not part of the sources at
  hand. The spec lists the closed enumeration of result codes and the four seek modes;
  the numbers are those of the header. Nothing proved below depends on a number other
  than through \<open>LSM_OK = 0\<close> and the codes being distinct.
\<close>

definition LSM_OK :: int where "LSM_OK = 0"
definition LSM_ERROR :: int where "LSM_ERROR = 1"
definition LSM_BUSY :: int where "LSM_BUSY = 5"
definition LSM_NOMEM :: int where "LSM_NOMEM = 7"
definition LSM_READONLY :: int where "LSM_READONLY = 8"
definition LSM_IOERR :: int where "LSM_IOERR = 10"
definition LSM_CORRUPT :: int where "LSM_CORRUPT = 11"
definition LSM_FULL :: int where "LSM_FULL = 13"
definition LSM_CANTOPEN :: int where "LSM_CANTOPEN = 14"
definition LSM_PROTOCOL :: int where "LSM_PROTOCOL = 15"
definition LSM_MISUSE :: int where "LSM_MISUSE = 21"
definition LSM_MISMATCH :: int where "LSM_MISMATCH = 50"
definition LSM_IOERR_NOENT :: int where "LSM_IOERR_NOENT = 266"

definition LSM_SEEK_LEFAST :: int where "LSM_SEEK_LEFAST = - 2"
definition LSM_SEEK_LE :: int where "LSM_SEEK_LE = - 1"
definition LSM_SEEK_EQ :: int where "LSM_SEEK_EQ = 0"
definition LSM_SEEK_GE :: int where "LSM_SEEK_GE = 1"

definition LSM_SAFETY_OFF :: int where "LSM_SAFETY_OFF = 0"
definition LSM_SAFETY_NORMAL :: int where "LSM_SAFETY_NORMAL = 1"
definition LSM_SAFETY_FULL :: int where "LSM_SAFETY_FULL = 2"

definition INT_MAX :: int where "INT_MAX = 2147483647"

section \<open>Python values and exceptions\<close>

text \<open>
  Keys and values are byte strings. The engine orders keys bytewise, a proper prefix
  first, which is the lexicographic order of \<open>char list\<close>.
\<close>

type_synonym bytes = string

text \<open>
  The Python objects that reach the binding. \<open>Py_Str b\<close> is a \<open>str\<close> whose UTF-8
  encoding is \<open>b\<close>; \<open>Py_Slice start stop step\<close> is a slice object; \<open>Py_Other\<close> stands
  for an object of any other type.
\<close>

datatype pyobj =
    Py_None
  | Py_True
  | Py_False
  | Py_Long int
  | Py_Bytes bytes
  | Py_Str bytes
  | Py_Tuple pyobj pyobj
  | Py_Slice pyobj pyobj pyobj
  | Py_Other

datatype pyexc =
    RuntimeError
  | MemoryError
  | PermissionError
  | OSError
  | FileNotFoundError
  | SystemError
  | KeyError
  | ValueError
  | TypeError
  | OverflowError
  | NotImplementedError
  | StopIteration
  | UnicodeDecodeError
  | ProcessCrash

text \<open>
  \<open>ProcessCrash\<close> is no exception of Python: it marks the places where the C code has
  undefined behaviour (it reads through a null cursor, divides by zero, or hands a null
  pointer to \<^verbatim>\<open>PyTuple_Pack\<close>), so that the model does not invent a result there.
\<close>

text \<open>
  Modelled from the spec: text mode holds keys and values as text. The interpreter's
  \<^verbatim>\<open>PyUnicode_FromStringAndSize\<close>, which is outside the repository, builds a
  \<^verbatim>\<open>str\<close> from bytes by decoding them as UTF-8; on bytes that are not well-formed
  UTF-8 it returns the null pointer with \<^verbatim>\<open>UnicodeDecodeError\<close> set. The well-formed
  sequences are those of the Unicode standard (table 3-7): no overlong form, no
  surrogate, nothing above \<open>U+10FFFF\<close>. \<open>utf8_wf\<close> reads the bytes as numbers.
\<close>

definition utf8_cont :: "nat \<Rightarrow> bool" where
  "utf8_cont b = (128 \<le> b \<and> b \<le> 191)"

fun utf8_wf :: "nat list \<Rightarrow> bool" where
  "utf8_wf [] = True"
| "utf8_wf (b # bs) =
     (if b < 128 then utf8_wf bs
      else if 194 \<le> b \<and> b \<le> 223 then
        (case bs of
           c1 # r \<Rightarrow> utf8_cont c1 \<and> utf8_wf r
         | _ \<Rightarrow> False)
      else if 224 \<le> b \<and> b \<le> 239 then
        (case bs of
           c1 # c2 # r \<Rightarrow>
             (if b = 224 then 160 \<le> c1 \<and> c1 \<le> 191
              else if b = 237 then 128 \<le> c1 \<and> c1 \<le> 159
              else utf8_cont c1)
             \<and> utf8_cont c2 \<and> utf8_wf r
         | _ \<Rightarrow> False)
      else if 240 \<le> b \<and> b \<le> 244 then
        (case bs of
           c1 # c2 # c3 # r \<Rightarrow>
             (if b = 240 then 144 \<le> c1 \<and> c1 \<le> 191
              else if b = 244 then 128 \<le> c1 \<and> c1 \<le> 143
              else utf8_cont c1)
             \<and> utf8_cont c2 \<and> utf8_cont c3 \<and> utf8_wf r
         | _ \<Rightarrow> False)
      else False)"

definition utf8_valid :: "bytes \<Rightarrow> bool" where
  "utf8_valid b = utf8_wf (map of_char b)"

definition PyUnicode_FromStringAndSize :: "bytes \<Rightarrow> pyobj option" where
  "PyUnicode_FromStringAndSize b = (if utf8_valid b then Some (Py_Str b) else None)"

section \<open>The engine handle\<close>

text \<open>
  Every call into the engine and every operation on the connection's mutex is recorded,
  in order, in the engine's \<open>trace\<close>.
\<close>

text \<open>The parameters \<^verbatim>\<open>lsm_config\<close> is called with (the header's \<^verbatim>\<open>LSM_CONFIG_*\<close>).\<close>

datatype cfg_key =
    LSM_CONFIG_SET_COMPRESSION
  | LSM_CONFIG_BLOCK_SIZE
  | LSM_CONFIG_MULTIPLE_PROCESSES
  | LSM_CONFIG_PAGE_SIZE
  | LSM_CONFIG_READONLY
  | LSM_CONFIG_AUTOCHECKPOINT
  | LSM_CONFIG_AUTOFLUSH
  | LSM_CONFIG_AUTOMERGE
  | LSM_CONFIG_AUTOWORK
  | LSM_CONFIG_MAX_FREELIST
  | LSM_CONFIG_MMAP
  | LSM_CONFIG_SAFETY
  | LSM_CONFIG_USE_LOG

datatype call =
    E_begin int
  | E_commit int
  | E_rollback int
  | E_insert bytes bytes
  | E_delete bytes
  | E_delete_range bytes bytes
  | E_csr_open
  | E_csr_close
  | E_csr_seek bytes int
  | E_csr_first
  | E_csr_last
  | E_csr_next
  | E_csr_prev
  | E_csr_valid
  | E_csr_key
  | E_csr_value
  | E_csr_cmp bytes
  | E_new
  | E_mutex_new
  | E_config cfg_key int

datatype event = MutexEnter | MutexLeave | Call call

text \<open>
  Modelled from the spec: the engine behind the handle \<^verbatim>\<open>lsm_db*\<close> (the vendored
  \<^verbatim>\<open>lsm1\<close> library, not part of the sources at hand), as far as the contract of
  section 6 of the spec describes it. \<open>rows\<close> is the current content, ascending by key
  with no key twice. \<open>marks\<close> holds, for every open nested write transaction, the content
  at the moment the level was opened (innermost last); its length is the engine's nesting
  depth. \<open>script\<close> is the list of result codes the engine will return to the coming
  fallible calls (the empty list: every call returns \<open>LSM_OK\<close>): a call that returns
  a non-OK code has no effect on the content.
\<close>

record lsm_db =
  rows :: "(bytes \<times> bytes) list"
  marks :: "(bytes \<times> bytes) list list"
  script :: "int list"
  trace :: "event list"

definition ecall :: "call \<Rightarrow> lsm_db \<Rightarrow> int \<times> lsm_db" where
  "ecall c e =
     (let e1 = e\<lparr>trace := trace e @ [Call c]\<rparr>
      in case script e1 of
           [] \<Rightarrow> (LSM_OK, e1)
         | r # rs \<Rightarrow> (r, e1\<lparr>script := rs\<rparr>))"

definition lsm_begin :: "lsm_db \<Rightarrow> int \<Rightarrow> int \<times> lsm_db" where
  "lsm_begin e iLevel =
     (let (rc, e1) = ecall (E_begin iLevel) e in
      if rc \<noteq> LSM_OK then (rc, e1)
      else
        let depth = int (length (marks e1));
            lv = (if iLevel < 0 then depth + 1 else iLevel)
        in if depth < lv
           then (LSM_OK, e1\<lparr>marks := marks e1 @ replicate (nat (lv - depth)) (rows e1)\<rparr>)
           else (LSM_OK, e1))"

definition lsm_commit :: "lsm_db \<Rightarrow> int \<Rightarrow> int \<times> lsm_db" where
  "lsm_commit e iLevel =
     (let (rc, e1) = ecall (E_commit iLevel) e in
      if rc \<noteq> LSM_OK then (rc, e1)
      else
        let depth = int (length (marks e1));
            lv = (if iLevel < 0 then max 0 (depth - 1) else iLevel)
        in if lv < depth
           then (LSM_OK, e1\<lparr>marks := take (nat lv) (marks e1)\<rparr>)
           else (LSM_OK, e1))"

definition lsm_rollback :: "lsm_db \<Rightarrow> int \<Rightarrow> int \<times> lsm_db" where
  "lsm_rollback e iLevel =
     (let (rc, e1) = ecall (E_rollback iLevel) e in
      if rc \<noteq> LSM_OK then (rc, e1)
      else
        let depth = int (length (marks e1));
            lv = (if iLevel < 0 then max 0 (depth - 1) else iLevel)
        in if 0 < depth \<and> lv \<le> depth
           then (LSM_OK, e1\<lparr>rows := marks e1 ! (if lv = 0 then 0 else nat lv - 1),
                              marks := take (nat lv) (marks e1)\<rparr>)
           else (LSM_OK, e1))"

fun upsert :: "bytes \<Rightarrow> bytes \<Rightarrow> (bytes \<times> bytes) list \<Rightarrow> (bytes \<times> bytes) list" where
  "upsert k v [] = [(k, v)]"
| "upsert k v ((k', v') # xs) =
     (if k < k' then (k, v) # (k', v') # xs
      else if k = k' then (k, v) # xs
      else (k', v') # upsert k v xs)"

definition lsm_insert :: "lsm_db \<Rightarrow> bytes \<Rightarrow> bytes \<Rightarrow> int \<times> lsm_db" where
  "lsm_insert e k v =
     (let (rc, e1) = ecall (E_insert k v) e in
      if rc \<noteq> LSM_OK then (rc, e1)
      else (LSM_OK, e1\<lparr>rows := upsert k v (rows e1)\<rparr>))"

definition lsm_delete :: "lsm_db \<Rightarrow> bytes \<Rightarrow> int \<times> lsm_db" where
  "lsm_delete e k =
     (let (rc, e1) = ecall (E_delete k) e in
      if rc \<noteq> LSM_OK then (rc, e1)
      else (LSM_OK, e1\<lparr>rows := filter (\<lambda>kv. fst kv \<noteq> k) (rows e1)\<rparr>))"


definition lsm_delete_range :: "lsm_db \<Rightarrow> bytes \<Rightarrow> bytes \<Rightarrow> int \<times> lsm_db" where
  "lsm_delete_range e k1 k2 =
     (let (rc, e1) = ecall (E_delete_range k1 k2) e in
      if rc \<noteq> LSM_OK then (rc, e1)
      else (LSM_OK, e1\<lparr>rows := filter (\<lambda>kv. \<not> (k1 < fst kv \<and> fst kv < k2)) (rows e1)\<rparr>))"

subsection \<open>Engine cursors\<close>

text \<open>
  Modelled from the spec: the cursor sub-contract of the engine. A cursor reads the
  content as it was when the cursor was opened (\<open>snap\<close>); \<open>pos\<close> is the index of the
  entry it stands on, \<open>None\<close> when it stands on no entry. Seeking with \<open>LSM_SEEK_GE\<close>
  finds the least key at or above the given one, with \<open>LSM_SEEK_LE\<close> (and
  \<open>LSM_SEEK_LEFAST\<close>) the greatest key at or below it, with \<open>LSM_SEEK_EQ\<close> the key
  itself. Reading the key or the value, or comparing, on a cursor that stands on no
  entry is answered with \<open>LSM_MISUSE\<close>. \<open>fast\<close> tells that the cursor was last
  positioned by a seek with \<open>LSM_SEEK_LEFAST\<close>, which does not fetch the value:
  retrieving the value is then rejected, with \<open>LSM_MISUSE\<close> (a single step leaves
  \<open>fast\<close> as it is). \<^verbatim>\<open>lsm_csr_valid\<close> returns a truth value, not a
  result code, and cannot fail. \<^verbatim>\<open>lsm_csr_open\<close> hands the new cursor back through a
  pointer; the cursor component of its result means nothing when the result code is not
  \<open>LSM_OK\<close>, and no caller reads it then.
\<close>

record lsm_cursor =
  snap :: "(bytes \<times> bytes) list"
  pos :: "nat option"
  fast :: bool

definition lsm_csr_open :: "lsm_db \<Rightarrow> int \<times> lsm_cursor \<times> lsm_db" where
  "lsm_csr_open e =
     (let (rc, e1) = ecall E_csr_open e
      in (rc, \<lparr>snap = rows e1, pos = None, fast = False\<rparr>, e1))"

definition lsm_csr_close :: "lsm_cursor \<Rightarrow> lsm_db \<Rightarrow> int \<times> lsm_db" where
  "lsm_csr_close c e = ecall E_csr_close e"

definition seek_pos :: "(bytes \<times> bytes) list \<Rightarrow> bytes \<Rightarrow> int \<Rightarrow> nat option" where
  "seek_pos xs k mode =
     (let i = length (takeWhile (\<lambda>kv. fst kv < k) xs);
          j = length (takeWhile (\<lambda>kv. fst kv \<le> k) xs)
      in if mode = LSM_SEEK_GE then (if i < length xs then Some i else None)
         else if mode = LSM_SEEK_EQ
           then (if i < length xs \<and> fst (xs ! i) = k then Some i else None)
         else (if j = 0 then None else Some (j - 1)))"

definition lsm_csr_seek ::
    "lsm_cursor \<Rightarrow> bytes \<Rightarrow> int \<Rightarrow> lsm_db \<Rightarrow> int \<times> lsm_cursor \<times> lsm_db" where
  "lsm_csr_seek c k mode e =
     (let (rc, e1) = ecall (E_csr_seek k mode) e in
      if rc \<noteq> LSM_OK then (rc, c, e1)
      else if mode \<noteq> LSM_SEEK_GE \<and> mode \<noteq> LSM_SEEK_EQ
              \<and> mode \<noteq> LSM_SEEK_LE \<and> mode \<noteq> LSM_SEEK_LEFAST
        then (LSM_MISUSE, c, e1)
      else (LSM_OK, c\<lparr>pos := seek_pos (snap c) k mode, fast := (mode = LSM_SEEK_LEFAST)\<rparr>, e1))"

definition lsm_csr_first :: "lsm_cursor \<Rightarrow> lsm_db \<Rightarrow> int \<times> lsm_cursor \<times> lsm_db" where
  "lsm_csr_first c e =
     (let (rc, e1) = ecall E_csr_first e in
      if rc \<noteq> LSM_OK then (rc, c, e1)
      else (LSM_OK, c\<lparr>pos := (if snap c = [] then None else Some 0), fast := False\<rparr>, e1))"

definition lsm_csr_last :: "lsm_cursor \<Rightarrow> lsm_db \<Rightarrow> int \<times> lsm_cursor \<times> lsm_db" where
  "lsm_csr_last c e =
     (let (rc, e1) = ecall E_csr_last e in
      if rc \<noteq> LSM_OK then (rc, c, e1)
      else (LSM_OK,
            c\<lparr>pos := (if snap c = [] then None else Some (length (snap c) - 1)), fast := False\<rparr>,
            e1))"

definition lsm_csr_next :: "lsm_cursor \<Rightarrow> lsm_db \<Rightarrow> int \<times> lsm_cursor \<times> lsm_db" where
  "lsm_csr_next c e =
     (let (rc, e1) = ecall E_csr_next e in
      if rc \<noteq> LSM_OK then (rc, c, e1)
      else (LSM_OK,
            c\<lparr>pos := (case pos c of
                         None \<Rightarrow> None
                       | Some i \<Rightarrow> if Suc i < length (snap c) then Some (Suc i) else None)\<rparr>,
            e1))"

definition lsm_csr_prev :: "lsm_cursor \<Rightarrow> lsm_db \<Rightarrow> int \<times> lsm_cursor \<times> lsm_db" where
  "lsm_csr_prev c e =
     (let (rc, e1) = ecall E_csr_prev e in
      if rc \<noteq> LSM_OK then (rc, c, e1)
      else (LSM_OK,
            c\<lparr>pos := (case pos c of
                         None \<Rightarrow> None
                       | Some i \<Rightarrow> if i = 0 then None else Some (i - 1))\<rparr>,
            e1))"

definition csr_on_entry :: "lsm_cursor \<Rightarrow> bool" where
  "csr_on_entry c = (case pos c of None \<Rightarrow> False | Some i \<Rightarrow> i < length (snap c))"

definition lsm_csr_valid :: "lsm_cursor \<Rightarrow> lsm_db \<Rightarrow> bool \<times> lsm_db" where
  "lsm_csr_valid c e = (csr_on_entry c, e\<lparr>trace := trace e @ [Call E_csr_valid]\<rparr>)"

definition lsm_csr_key :: "lsm_cursor \<Rightarrow> lsm_db \<Rightarrow> int \<times> bytes \<times> lsm_db" where
  "lsm_csr_key c e =
     (let (rc, e1) = ecall E_csr_key e in
      if rc \<noteq> LSM_OK then (rc, [], e1)
      else if \<not> csr_on_entry c then (LSM_MISUSE, [], e1)
      else (LSM_OK, fst (snap c ! the (pos c)), e1))"

definition lsm_csr_value :: "lsm_cursor \<Rightarrow> lsm_db \<Rightarrow> int \<times> bytes \<times> lsm_db" where
  "lsm_csr_value c e =
     (let (rc, e1) = ecall E_csr_value e in
      if rc \<noteq> LSM_OK then (rc, [], e1)
      else if \<not> csr_on_entry c then (LSM_MISUSE, [], e1)
      else if fast c then (LSM_MISUSE, [], e1)
      else (LSM_OK, snd (snap c ! the (pos c)), e1))"

definition lsm_csr_cmp :: "lsm_cursor \<Rightarrow> bytes \<Rightarrow> lsm_db \<Rightarrow> int \<times> int \<times> lsm_db" where
  "lsm_csr_cmp c k e =
     (let (rc, e1) = ecall (E_csr_cmp k) e in
      if rc \<noteq> LSM_OK then (rc, 0, e1)
      else if \<not> csr_on_entry c then (LSM_MISUSE, 0, e1)
      else
        let ck = fst (snap c ! the (pos c))
        in (LSM_OK, (if ck < k then - 1 else if ck = k then 0 else 1), e1))"

section \<open>The connection object\<close>

text \<open>
  The lifecycle states of the binding's objects (the anonymous enum \<^verbatim>\<open>PY_LSM_*\<close>).
\<close>

datatype py_lsm_state =
    PY_LSM_INITIALIZED
  | PY_LSM_OPENED
  | PY_LSM_CLOSED
  | PY_LSM_ITERATING

text \<open>
  The struct \<^verbatim>\<open>LSM\<close>, with the fields the operations below read or write. The
  engine handle \<open>lsm\<close> is the engine itself; the mutex of the connection lives in the
  engine's environment and its operations appear in the engine's trace. \<open>tx_level\<close> is
  a C \<^verbatim>\<open>int\<close>, modelled as an integer: it only ever grows by one per successful
  \<^verbatim>\<open>begin\<close>. \<open>pyerr\<close> is the interpreter's error indicator (what
  \<^verbatim>\<open>PyErr_SetString\<close> sets and \<^verbatim>\<open>PyErr_Occurred\<close> reads); it is carried with
  the connection so that every function is a transformer of one state.
\<close>

record LSM =
  state :: py_lsm_state
  readonly :: bool
  binary :: bool
  tx_level :: int
  lsm :: lsm_db
  pyerr :: "pyexc option"

definition PyErr_Set :: "pyexc \<Rightarrow> LSM \<Rightarrow> LSM" where
  "PyErr_Set x self = self\<lparr>pyerr := Some x\<rparr>"

definition PyErr_Occurred :: "LSM \<Rightarrow> bool" where
  "PyErr_Occurred self = (pyerr self \<noteq> None)"

text \<open>The exception class \<^verbatim>\<open>pylsm_error\<close> chooses for a non-OK result code.\<close>

definition pylsm_exc :: "int \<Rightarrow> pyexc" where
  "pylsm_exc rc =
     (if rc = LSM_ERROR then RuntimeError
      else if rc = LSM_BUSY then RuntimeError
      else if rc = LSM_NOMEM then MemoryError
      else if rc = LSM_READONLY then PermissionError
      else if rc = LSM_IOERR then OSError
      else if rc = LSM_CORRUPT then RuntimeError
      else if rc = LSM_FULL then RuntimeError
      else if rc = LSM_CANTOPEN then FileNotFoundError
      else if rc = LSM_PROTOCOL then FileNotFoundError
      else if rc = LSM_MISUSE then RuntimeError
      else if rc = LSM_MISMATCH then RuntimeError
      else if rc = LSM_IOERR_NOENT then SystemError
      else RuntimeError)"

definition pylsm_error :: "int \<Rightarrow> LSM \<Rightarrow> int \<times> LSM" where
  "pylsm_error rc self =
     (if rc = LSM_OK then (rc, self) else (rc, PyErr_Set (pylsm_exc rc) self))"

definition LSM_MutexLock :: "LSM \<Rightarrow> LSM" where
  "LSM_MutexLock self = self\<lparr>lsm := (lsm self)\<lparr>trace := trace (lsm self) @ [MutexEnter]\<rparr>\<rparr>"

definition LSM_MutexLeave :: "LSM \<Rightarrow> LSM" where
  "LSM_MutexLeave self = self\<lparr>lsm := (lsm self)\<lparr>trace := trace (lsm self) @ [MutexLeave]\<rparr>\<rparr>"

text \<open>
  \<^verbatim>\<open>pylsm_ensure_opened\<close>: the connection is a value here, so the branch for a null
  pointer does not arise.
\<close>

definition pylsm_ensure_opened :: "LSM \<Rightarrow> int \<times> LSM" where
  "pylsm_ensure_opened self =
     (if state self = PY_LSM_OPENED then (0, self)
      else (- 1, PyErr_Set RuntimeError self))"

definition pylsm_ensure_writable :: "LSM \<Rightarrow> int \<times> LSM" where
  "pylsm_ensure_writable self =
     (let (rc, s1) = pylsm_ensure_opened self in
      if rc \<noteq> 0 then (- 1, s1)
      else if readonly s1 then pylsm_error LSM_READONLY s1
      else (0, s1))"

section \<open>Transactions\<close>

definition LSM_begin :: "LSM \<Rightarrow> pyobj option \<times> LSM" where
  "LSM_begin self =
     (let (rc0, s0) = pylsm_ensure_writable self in
      if rc0 \<noteq> 0 then (None, s0)
      else
        let s1 = (if tx_level s0 < 0 then s0\<lparr>tx_level := 0\<rparr> else s0);
            level = tx_level s1 + 1;
            (result, e) = lsm_begin (lsm s1) level;
            (rc, s2) = pylsm_error result (s1\<lparr>lsm := e\<rparr>)
        in if rc \<noteq> 0 then (None, s2)
           else (Some Py_True, s2\<lparr>tx_level := level\<rparr>))"

definition LSM_commit_inner :: "LSM \<Rightarrow> int \<Rightarrow> pyobj option \<times> LSM" where
  "LSM_commit_inner self tx_level0 =
     (let (rc0, s0) = pylsm_ensure_writable self in
      if rc0 \<noteq> 0 then (None, s0)
      else
        let lv = (if tx_level0 < 0 then 0 else tx_level0);
            s1 = LSM_MutexLock s0;
            (result, e) = lsm_commit (lsm s1) lv;
            s2 = LSM_MutexLeave (s1\<lparr>lsm := e\<rparr>);
            (rc, s3) = pylsm_error result s2
        in if rc \<noteq> 0 then (None, s3) else (Some Py_True, s3))"

definition LSM_rollback_inner :: "LSM \<Rightarrow> int \<Rightarrow> pyobj option \<times> LSM" where
  "LSM_rollback_inner self tx_level0 =
     (let (rc0, s0) = pylsm_ensure_writable self in
      if rc0 \<noteq> 0 then (None, s0)
      else
        let lv = (if tx_level0 < 0 then 0 else tx_level0);
            s1 = LSM_MutexLock s0;
            (result, e) = lsm_rollback (lsm s1) lv;
            s2 = LSM_MutexLeave (s1\<lparr>lsm := e\<rparr>);
            (rc, s3) = pylsm_error result s2
        in if rc \<noteq> 0 then (None, s3) else (Some Py_True, s3))"

definition LSM_commit :: "LSM \<Rightarrow> pyobj option \<times> LSM" where
  "LSM_commit self =
     (let s1 = (if tx_level self < 0 then self\<lparr>tx_level := 0\<rparr> else self)
      in LSM_commit_inner s1 (tx_level s1))"

definition LSM_rollback :: "LSM \<Rightarrow> pyobj option \<times> LSM" where
  "LSM_rollback self =
     (let s1 = (if tx_level self < 0 then self\<lparr>tx_level := 0\<rparr> else self)
      in LSM_rollback_inner s1 (tx_level s1))"

text \<open>
  The struct \<^verbatim>\<open>LSMTransaction\<close>: its fields \<^verbatim>\<open>tx_level\<close> and \<^verbatim>\<open>state\<close>
  are named \<open>txn_level\<close> and \<open>txn_state\<close> here (record fields share one name space).
  Its pointer \<^verbatim>\<open>db\<close> is the connection passed next to the handle.
\<close>

record LSMTransaction =
  txn_level :: int
  txn_state :: py_lsm_state

definition LSMTransaction_new :: "LSM \<Rightarrow> LSMTransaction" where
  "LSMTransaction_new db = \<lparr>txn_level = tx_level db, txn_state = PY_LSM_INITIALIZED\<rparr>"

definition LSM_transaction :: "LSM \<Rightarrow> LSMTransaction option \<times> LSM" where
  "LSM_transaction self =
     (let (r, s1) = LSM_begin self in
      if PyErr_Occurred s1 then (None, s1)
      else (Some (LSMTransaction_new s1), s1))"

text \<open>
  \<^verbatim>\<open>LSMTransaction_dealloc\<close>: the result of the rollback is dropped.
\<close>

definition LSMTransaction_dealloc :: "LSMTransaction \<Rightarrow> LSM \<Rightarrow> LSM" where
  "LSMTransaction_dealloc self db =
     (if txn_state self \<noteq> PY_LSM_CLOSED \<and> state db \<noteq> PY_LSM_CLOSED
      then snd (LSM_rollback_inner db (txn_level self))
      else db)"

text \<open>
  \<^verbatim>\<open>LSMTransaction_ctx_exit\<close>: \<open>exc_type\<close> is the first of the three arguments of
  \<^verbatim>\<open>__exit__\<close>, \<open>Py_None\<close> when the block ended without an exception.
\<close>

definition LSMTransaction_ctx_exit ::
    "LSMTransaction \<Rightarrow> pyobj \<Rightarrow> LSM \<Rightarrow> pyobj option \<times> LSMTransaction \<times> LSM" where
  "LSMTransaction_ctx_exit self exc_type db =
     (if txn_state self = PY_LSM_CLOSED then (Some Py_None, self, db)
      else
        let self1 = self\<lparr>txn_state := PY_LSM_CLOSED\<rparr>;
            db1 = (if exc_type = Py_None
                   then snd (LSM_commit_inner db (txn_level self1 - 1))
                   else snd (LSM_rollback_inner db (txn_level self1)))
        in if PyErr_Occurred db1 then (None, self1, db1)
           else (Some Py_None, self1, db1))"

definition LSMTransaction_commit :: "LSMTransaction \<Rightarrow> LSM \<Rightarrow> pyobj option \<times> LSM" where
  "LSMTransaction_commit self db =
     (let (result, db1) = LSM_commit_inner db (txn_level self - 1) in
      if PyErr_Occurred db1 then (None, db1)
      else
        let (rc, e) = lsm_begin (lsm db1) (txn_level self);
            (rc1, db2) = pylsm_error rc (db1\<lparr>lsm := e\<rparr>)
        in if rc1 \<noteq> 0 then (None, db2) else (result, db2))"

definition LSMTransaction_rollback :: "LSMTransaction \<Rightarrow> LSM \<Rightarrow> pyobj option \<times> LSM" where
  "LSMTransaction_rollback self db = LSM_rollback_inner db (txn_level self)"

section \<open>Point operations of the mapping interface\<close>

text \<open>
  \<^verbatim>\<open>str_or_bytes_check\<close>: the buffer of a key or value, \<^verbatim>\<open>bytes\<close> in binary mode
  and \<^verbatim>\<open>str\<close> in text mode; anything else is a \<^verbatim>\<open>ValueError\<close>.
\<close>

definition str_or_bytes_check :: "bool \<Rightarrow> pyobj \<Rightarrow> LSM \<Rightarrow> int \<times> bytes \<times> LSM" where
  "str_or_bytes_check bin pObj db =
     (if bin
      then (case pObj of
              Py_Bytes b \<Rightarrow> (0, b, db)
            | _ \<Rightarrow> (- 1, [], PyErr_Set ValueError db))
      else (case pObj of
              Py_Str b \<Rightarrow> (0, b, db)
            | _ \<Rightarrow> (- 1, [], PyErr_Set ValueError db)))"

text \<open>
  The argument formats \<^verbatim>\<open>y#\<close> (binary mode: a bytes object) and \<^verbatim>\<open>s#\<close> (text
  mode: a \<^verbatim>\<open>str\<close> or a bytes object) of \<^verbatim>\<open>PyArg_ParseTupleAndKeywords\<close>.
\<close>

definition parse_buffer :: "bool \<Rightarrow> pyobj \<Rightarrow> bytes option" where
  "parse_buffer bin obj =
     (case obj of
        Py_Bytes b \<Rightarrow> Some b
      | Py_Str b \<Rightarrow> (if bin then None else Some b)
      | _ \<Rightarrow> None)"

definition pylsm_delitem :: "lsm_db \<Rightarrow> bytes \<Rightarrow> int \<times> lsm_db" where
  "pylsm_delitem e pKey =
     (let (rc, cursor, e1) = lsm_csr_open e in
      if rc \<noteq> 0 then (rc, e1)
      else
        let (rc2, cursor2, e2) = lsm_csr_seek cursor pKey LSM_SEEK_EQ e1 in
        if rc2 \<noteq> 0 then (rc2, snd (lsm_csr_close cursor2 e2))
        else
          let (v, e3) = lsm_csr_valid cursor2 e2 in
          if \<not> v then (- 1, snd (lsm_csr_close cursor2 e3))
          else
            let e4 = snd (lsm_csr_close cursor2 e3);
                (rc5, e5) = lsm_delete e4 pKey
            in if rc5 \<noteq> 0 then (rc5, e5) else (0, e5))"

definition LSM_insert :: "LSM \<Rightarrow> pyobj \<Rightarrow> pyobj \<Rightarrow> pyobj option \<times> LSM" where
  "LSM_insert self key val =
     (let (rc0, s0) = pylsm_ensure_writable self in
      if rc0 \<noteq> 0 then (None, s0)
      else
        case (parse_buffer (binary s0) key, parse_buffer (binary s0) val) of
          (Some pKey, Some pVal) \<Rightarrow>
            if int (length pKey) \<ge> INT_MAX then (None, PyErr_Set OverflowError s0)
            else if int (length pVal) \<ge> INT_MAX then (None, PyErr_Set OverflowError s0)
            else
              let s1 = LSM_MutexLock s0;
                  (result, e) = lsm_insert (lsm s1) pKey pVal;
                  s2 = LSM_MutexLeave (s1\<lparr>lsm := e\<rparr>);
                  (rc, s3) = pylsm_error result s2
              in if rc \<noteq> 0 then (None, s3) else (Some Py_None, s3)
        | _ \<Rightarrow> (None, PyErr_Set TypeError s0))"


text \<open>
  \<^verbatim>\<open>LSM_set_del_item\<close> is the mapping slot behind \<^verbatim>\<open>db[key] = value\<close> and
  \<^verbatim>\<open>del db[key]\<close>; \<open>val = None\<close> is the null pointer the interpreter passes for a
  deletion.
\<close>

definition LSM_set_del_item :: "LSM \<Rightarrow> pyobj \<Rightarrow> pyobj option \<Rightarrow> int \<times> LSM" where
  "LSM_set_del_item self key val =
     (let (rc0, s0) = pylsm_ensure_writable self in
      if rc0 \<noteq> 0 then (- 1, s0)
      else
        case key of
          Py_Slice start stop step \<Rightarrow>
            if val \<noteq> None then (- 1, PyErr_Set NotImplementedError s0)
            else if step \<noteq> Py_None then (- 1, PyErr_Set ValueError s0)
            else if start = Py_None \<or> stop = Py_None then (- 1, PyErr_Set ValueError s0)
            else
              let (c1, pStart, s1) = str_or_bytes_check (binary s0) start s0 in
              if c1 \<noteq> 0 then (- 1, s1)
              else
                let (c2, pStop, s2) = str_or_bytes_check (binary s1) stop s1 in
                if c2 \<noteq> 0 then (- 1, s2)
                else if int (length pStart) \<ge> INT_MAX then (- 1, PyErr_Set OverflowError s2)
                else if int (length pStop) \<ge> INT_MAX then (- 1, PyErr_Set OverflowError s2)
                else
                  let s3 = LSM_MutexLock s2;
                      (rc, e) = lsm_delete_range (lsm s3) pStart pStop;
                      s4 = LSM_MutexLeave (s3\<lparr>lsm := e\<rparr>);
                      (rc', s5) = pylsm_error rc s4
                  in if rc' \<noteq> 0 then (- 1, s5) else (0, s5)
        | _ \<Rightarrow>
            let (c1, pKey, s1) = str_or_bytes_check (binary s0) key s0 in
            if c1 \<noteq> 0 then (- 1, s1)
            else
              let (c2, pVal, s2) =
                    (case val of
                       None \<Rightarrow> (0, None, s1)
                     | Some v \<Rightarrow>
                         (let (c, b, s) = str_or_bytes_check (binary s1) v s1
                          in (c, Some b, s)))
              in if c2 \<noteq> 0 then (- 1, s2)
                 else if int (length pKey) \<ge> INT_MAX then (- 1, PyErr_Set OverflowError s2)
                 else if int (length (case pVal of None \<Rightarrow> [] | Some b \<Rightarrow> b)) \<ge> INT_MAX
                   then (- 1, PyErr_Set OverflowError s2)
                 else
                   let s3 = LSM_MutexLock s2;
                       (rc, e) = (case pVal of
                                    None \<Rightarrow> pylsm_delitem (lsm s3) pKey
                                  | Some b \<Rightarrow> lsm_insert (lsm s3) pKey b);
                       s4 = LSM_MutexLeave (s3\<lparr>lsm := e\<rparr>)
                   in if rc = - 1 then (- 1, PyErr_Set KeyError s4)
                      else
                        let (rc', s5) = pylsm_error rc s4
                        in if rc' \<noteq> 0 then (- 1, s5) else (0, s5))"

section \<open>Cursor objects\<close>

text \<open>
  The struct \<^verbatim>\<open>LSMCursor\<close> between \<^verbatim>\<open>LSMCursor_new\<close> and
  \<^verbatim>\<open>LSMCursor_close\<close>, that is while its pointers to the connection and to the engine
  cursor are not null. Its field \<^verbatim>\<open>state\<close> is named \<open>cur_state\<close> here.
\<close>

record LSMCursor =
  cur_state :: py_lsm_state
  cursor :: lsm_cursor
  seek_mode :: int

definition pylsm_seek_mode_check :: "int \<Rightarrow> LSM \<Rightarrow> int \<times> LSM" where
  "pylsm_seek_mode_check mode db =
     (if mode = LSM_SEEK_EQ then (0, db)
      else if mode = LSM_SEEK_LE then (0, db)
      else if mode = LSM_SEEK_GE then (0, db)
      else if mode = LSM_SEEK_LEFAST then (0, db)
      else (- 1, PyErr_Set ValueError db))"

definition pylsm_ensure_csr_opened :: "LSMCursor \<Rightarrow> LSM \<Rightarrow> int \<times> LSM" where
  "pylsm_ensure_csr_opened self db =
     (let (rc, d1) = pylsm_ensure_opened db in
      if rc \<noteq> 0 then (0, d1)
      else if cur_state self = PY_LSM_OPENED \<or> cur_state self = PY_LSM_ITERATING
      then
        let (v, e) = lsm_csr_valid (cursor self) (lsm d1);
            d2 = d1\<lparr>lsm := e\<rparr>
        in if \<not> v then (- 1, PyErr_Set RuntimeError d2) else (0, d2)
      else (- 1, PyErr_Set RuntimeError d1))"

definition LSMCursor_new :: "LSM \<Rightarrow> int \<Rightarrow> LSMCursor option \<times> LSM" where
  "LSMCursor_new db mode =
     (let (rc0, d0) = pylsm_ensure_opened db in
      if rc0 \<noteq> 0 then (None, d0)
      else
        let d1 = LSM_MutexLock d0;
            (rc, c, e) = lsm_csr_open (lsm d1);
            d2 = LSM_MutexLeave (d1\<lparr>lsm := e\<rparr>);
            (rc', d3) = pylsm_error rc d2
        in if rc' \<noteq> 0 then (None, d3)
           else
             let d4 = LSM_MutexLock d3;
                 (rc2, c2, e2) = lsm_csr_first c (lsm d4);
                 d5 = LSM_MutexLeave (d4\<lparr>lsm := e2\<rparr>);
                 (rc2', d6) = pylsm_error rc2 d5
             in if rc2' \<noteq> 0 then (None, d6)
                else (Some \<lparr>cur_state = PY_LSM_OPENED, cursor = c2, seek_mode = mode\<rparr>, d6))"

text \<open>
  \<^verbatim>\<open>LSMCursor_seek\<close>: \<open>mode\<close> is the optional second argument (format \<^verbatim>\<open>O|i\<close>),
  taken to fit a C \<^verbatim>\<open>int\<close>. The field \<^verbatim>\<open>seek_mode\<close> is overwritten before the new
  mode is checked.
\<close>

definition LSMCursor_seek ::
    "LSMCursor \<Rightarrow> pyobj \<Rightarrow> int option \<Rightarrow> LSM \<Rightarrow> pyobj option \<times> LSMCursor \<times> LSM" where
  "LSMCursor_seek self key mode db =
     (if cur_state self = PY_LSM_ITERATING then (None, self, PyErr_Set RuntimeError db)
      else
        let (rc0, d0) = pylsm_ensure_csr_opened self db in
        if rc0 \<noteq> 0 then (None, self, d0)
        else
          let self1 = self\<lparr>seek_mode := (case mode of None \<Rightarrow> LSM_SEEK_EQ | Some m \<Rightarrow> m)\<rparr>;
              (rc1, d1) = pylsm_seek_mode_check (seek_mode self1) d0
          in if rc1 \<noteq> 0 then (None, self1, d1)
             else
               let (rc2, pKey, d2) = str_or_bytes_check (binary d1) key d1 in
               if rc2 \<noteq> 0 then (None, self1, d2)
               else if int (length pKey) \<ge> INT_MAX then (None, self1, PyErr_Set OverflowError d2)
               else
                 let d3 = LSM_MutexLock d2;
                     (rc, c, e) = lsm_csr_seek (cursor self1) pKey (seek_mode self1) (lsm d3);
                     self2 = self1\<lparr>cursor := c\<rparr>;
                     d4 = LSM_MutexLeave (d3\<lparr>lsm := e\<rparr>);
                     (rc', d5) = pylsm_error rc d4
                 in if rc' \<noteq> 0 then (None, self2, d5)
                    else
                      let (v, e') = lsm_csr_valid c (lsm d5)
                      in (Some (if v then Py_True else Py_False), self2, d5\<lparr>lsm := e'\<rparr>))"

text \<open>
  \<^verbatim>\<open>pylsm_cursor_value_fetch\<close>: the value under the cursor, as \<^verbatim>\<open>bytes\<close> or
  \<^verbatim>\<open>str\<close>; in text mode the decoding may fail, and the null pointer is returned with
  \<^verbatim>\<open>UnicodeDecodeError\<close> set.
\<close>

definition pylsm_cursor_value_fetch :: "lsm_cursor \<Rightarrow> bool \<Rightarrow> LSM \<Rightarrow> pyobj option \<times> LSM" where
  "pylsm_cursor_value_fetch c bin db =
     (let (rc1, pKey, e1) = lsm_csr_key c (lsm db);
          (rc1', d1) = pylsm_error rc1 (db\<lparr>lsm := e1\<rparr>)
      in if rc1' \<noteq> 0 then (None, d1)
         else
           let (rc2, pValue, e2) = lsm_csr_value c (lsm d1);
               (rc2', d2) = pylsm_error rc2 (d1\<lparr>lsm := e2\<rparr>)
           in if rc2' \<noteq> 0 then (None, d2)
              else if bin then (Some (Py_Bytes pValue), d2)
              else
                (case PyUnicode_FromStringAndSize pValue of
                   None \<Rightarrow> (None, PyErr_Set UnicodeDecodeError d2)
                 | Some v \<Rightarrow> (Some v, d2)))"

definition LSMCursor_value :: "LSMCursor \<Rightarrow> LSM \<Rightarrow> pyobj option \<times> LSM" where
  "LSMCursor_value self db =
     (if cur_state self = PY_LSM_ITERATING then (None, PyErr_Set RuntimeError db)
      else
        let (rc0, d0) = pylsm_ensure_csr_opened self db in
        if rc0 \<noteq> 0 then (None, d0)
        else
          let (v, e) = lsm_csr_valid (cursor self) (lsm d0);
              d1 = d0\<lparr>lsm := e\<rparr>
          in if \<not> v then (Some Py_None, d1)
             else
               let d2 = LSM_MutexLock d1;
                   (result, d3) = pylsm_cursor_value_fetch (cursor self) (binary d2) d2
               in (result, LSM_MutexLeave d3))"

definition LSMCursor_next :: "LSMCursor \<Rightarrow> LSM \<Rightarrow> pyobj option \<times> LSMCursor \<times> LSM" where
  "LSMCursor_next self db =
     (if cur_state self = PY_LSM_ITERATING then (None, self, PyErr_Set RuntimeError db)
      else
        let (rc0, d0) = pylsm_ensure_csr_opened self db in
        if rc0 \<noteq> 0 then (None, self, d0)
        else if seek_mode self = LSM_SEEK_EQ then (Some Py_False, self, d0)
        else
          let (v, e) = lsm_csr_valid (cursor self) (lsm d0);
              d1 = d0\<lparr>lsm := e\<rparr>
          in if \<not> v then (Some Py_False, self, d1)
             else
               let d2 = LSM_MutexLock d1;
                   (err, c, e2) = lsm_csr_next (cursor self) (lsm d2);
                   self1 = self\<lparr>cursor := c\<rparr>;
                   d3 = LSM_MutexLeave (d2\<lparr>lsm := e2\<rparr>);
                   (rc', d4) = pylsm_error err d3
               in if rc' \<noteq> 0 then (None, self1, d4)
                  else
                    let (v2, e3) = lsm_csr_valid c (lsm d4)
                    in (Some (if v2 then Py_True else Py_False), self1, d4\<lparr>lsm := e3\<rparr>))"

definition LSMCursor_previous :: "LSMCursor \<Rightarrow> LSM \<Rightarrow> pyobj option \<times> LSMCursor \<times> LSM" where
  "LSMCursor_previous self db =
     (if cur_state self = PY_LSM_ITERATING then (None, self, PyErr_Set RuntimeError db)
      else
        let (rc0, d0) = pylsm_ensure_csr_opened self db in
        if rc0 \<noteq> 0 then (None, self, d0)
        else if seek_mode self = LSM_SEEK_EQ then (None, self, PyErr_Set RuntimeError d0)
        else
          let (v, e) = lsm_csr_valid (cursor self) (lsm d0);
              d1 = d0\<lparr>lsm := e\<rparr>
          in if \<not> v then (Some Py_False, self, d1)
             else
               let d2 = LSM_MutexLock d1;
                   (err, c, e2) = lsm_csr_prev (cursor self) (lsm d2);
                   self1 = self\<lparr>cursor := c\<rparr>;
                   d3 = LSM_MutexLeave (d2\<lparr>lsm := e2\<rparr>);
                   (rc', d4) = pylsm_error err d3
               in if rc' \<noteq> 0 then (None, self1, d4)
                  else
                    let (v2, e3) = lsm_csr_valid c (lsm d4)
                    in (Some (if v2 then Py_True else Py_False), self1, d4\<lparr>lsm := e3\<rparr>))"

section \<open>Range iteration over a slice\<close>

datatype slice_dir = PY_LSM_SLICE_FORWARD | PY_LSM_SLICE_BACKWARD

text \<open>
  The struct \<^verbatim>\<open>LSMSliceView\<close>. \<open>pStart\<close> and \<open>pStop\<close> are the buffers of the two
  bounds, \<open>None\<close> for the null pointer; \<open>sl_cursor\<close> is the engine cursor, \<open>None\<close>
  until \<^verbatim>\<open>__iter__\<close> has opened it; \<open>sl_state\<close> is the field \<^verbatim>\<open>state\<close>. \<open>step\<close> is
  a C \<^verbatim>\<open>long\<close> and \<open>counter\<close> a \<^verbatim>\<open>Py_ssize_t\<close>, both within range for any
  store that fits the machine.
\<close>

record LSMSliceView =
  sl_cursor :: "lsm_cursor option"
  pStart :: "bytes option"
  pStop :: "bytes option"
  sl_state :: py_lsm_state
  step :: int
  direction :: slice_dir
  counter :: int

text \<open>\<^verbatim>\<open>LSMSliceView_new\<close>: the allocator hands out zeroed memory.\<close>

definition LSMSliceView_new :: LSMSliceView where
  "LSMSliceView_new =
     \<lparr>sl_cursor = None, pStart = None, pStop = None, sl_state = PY_LSM_INITIALIZED,
      step = 0, direction = PY_LSM_SLICE_FORWARD, counter = 0\<rparr>"

definition LONG_MAX :: int where "LONG_MAX = 9223372036854775807"

text \<open>
  \<^verbatim>\<open>PyLong_AsLong\<close>: outside the range of a C \<^verbatim>\<open>long\<close> it returns \<open>- 1\<close> and sets
  \<^verbatim>\<open>OverflowError\<close>.
\<close>

definition PyLong_AsLong :: "int \<Rightarrow> LSM \<Rightarrow> int \<times> LSM" where
  "PyLong_AsLong n db =
     (if - LONG_MAX - 1 \<le> n \<and> n \<le> LONG_MAX then (n, db)
      else (- 1, PyErr_Set OverflowError db))"

text \<open>
  \<^verbatim>\<open>LSMSliceView_init\<close>: \<open>start\<close>, \<open>stop\<close> and \<open>step_obj\<close> are the three members
  of the slice object. \<^verbatim>\<open>PyLong_Check\<close> accepts \<^verbatim>\<open>bool\<close>, a subclass of
  \<^verbatim>\<open>int\<close>. The result of \<^verbatim>\<open>PyLong_AsLong\<close> is stored unchecked.
\<close>

definition LSMSliceView_init ::
    "LSMSliceView \<Rightarrow> LSM \<Rightarrow> pyobj \<Rightarrow> pyobj \<Rightarrow> pyobj \<Rightarrow> int \<times> LSMSliceView \<times> LSM" where
  "LSMSliceView_init self db start stop step_obj =
     (let (rc0, d0) = pylsm_ensure_opened db in
      if rc0 \<noteq> 0 then (- 1, self, d0)
      else
        case (case step_obj of
                Py_None \<Rightarrow> Some (1, d0)
              | Py_Long n \<Rightarrow> Some (PyLong_AsLong n d0)
              | Py_True \<Rightarrow> Some (1, d0)
              | Py_False \<Rightarrow> Some (0, d0)
              | _ \<Rightarrow> None) of
          None \<Rightarrow> (- 1, self, PyErr_Set ValueError d0)
        | Some (st, d1) \<Rightarrow>
            let dir = (if st > 0 then PY_LSM_SLICE_FORWARD else PY_LSM_SLICE_BACKWARD);
                stop' = (if dir = PY_LSM_SLICE_FORWARD then stop else start);
                start' = (if dir = PY_LSM_SLICE_FORWARD then start else stop);
                self1 = self\<lparr>step := st, direction := dir, pStop := None, counter := 0\<rparr>;
                (c2, b2, d2) = (if stop' \<noteq> Py_None
                                then str_or_bytes_check (binary d1) stop' d1
                                else (0, [], d1))
            in if c2 \<noteq> 0 then (- 1, self1, d2)
               else
                 let self2 = (if stop' \<noteq> Py_None then self1\<lparr>pStop := Some b2\<rparr> else self1);
                     (c3, b3, d3) = (if start' \<noteq> Py_None
                                     then str_or_bytes_check (binary d2) start' d2
                                     else (0, [], d2))
                 in if c3 \<noteq> 0 then (- 1, self2, d3)
                    else
                      let self3 = (if start' \<noteq> Py_None then self2\<lparr>pStart := Some b3\<rparr> else self2)
                      in (0, self3\<lparr>sl_state := PY_LSM_INITIALIZED\<rparr>, d3))"

definition pylsm_seek_mode_direction :: "slice_dir \<Rightarrow> int" where
  "pylsm_seek_mode_direction dir =
     (if dir = PY_LSM_SLICE_FORWARD then LSM_SEEK_GE else LSM_SEEK_LE)"

definition pylsm_slice_view_iter :: "LSMSliceView \<Rightarrow> lsm_db \<Rightarrow> int \<times> LSMSliceView \<times> lsm_db" where
  "pylsm_slice_view_iter self e =
     (let (rc, c, e1) = lsm_csr_open e in
      if rc \<noteq> 0 then (rc, self, e1)
      else
        let mode = pylsm_seek_mode_direction (direction self);
            (rc2, c2, e2) =
              (case pStart self of
                 Some k \<Rightarrow> lsm_csr_seek c k mode e1
               | None \<Rightarrow>
                   (case direction self of
                      PY_LSM_SLICE_FORWARD \<Rightarrow> lsm_csr_first c e1
                    | PY_LSM_SLICE_BACKWARD \<Rightarrow> lsm_csr_last c e1));
            self1 = self\<lparr>sl_cursor := Some c2\<rparr>
        in if rc2 \<noteq> 0 then (rc2, self1, e2) else (LSM_OK, self1, e2))"

text \<open>
  \<^verbatim>\<open>LSMSliceView_iter\<close>: the first component tells whether the iterator (the object
  itself) is returned, rather than the null pointer.
\<close>

definition LSMSliceView_iter :: "LSMSliceView \<Rightarrow> LSM \<Rightarrow> bool \<times> LSMSliceView \<times> LSM" where
  "LSMSliceView_iter self db =
     (let (rc0, d0) = pylsm_ensure_opened db in
      if rc0 \<noteq> 0 then (False, self, d0)
      else if sl_state self \<noteq> PY_LSM_INITIALIZED then (True, self, d0)
      else
        let self1 = self\<lparr>sl_state := PY_LSM_OPENED\<rparr>;
            d1 = LSM_MutexLock d0;
            (err, self2, e) = pylsm_slice_view_iter self1 (lsm d1);
            d2 = LSM_MutexLeave (d1\<lparr>lsm := e\<rparr>);
            (rc, d3) = pylsm_error err d2
        in if rc \<noteq> 0 then (False, self2, d3) else (True, self2, d3))"

text \<open>
  Three pieces shared by \<^verbatim>\<open>pylsm_slice_first\<close> and \<^verbatim>\<open>pylsm_slice_next\<close>:
  \<open>slice_move\<close> is the \<^verbatim>\<open>switch\<close> on the direction that steps the cursor,
  \<open>slice_cmp_stop\<close> the comparison with the stop key when there is one, and
  \<open>slice_past_stop\<close> the two tests on its result.
\<close>

definition slice_move :: "slice_dir \<Rightarrow> lsm_cursor \<Rightarrow> lsm_db \<Rightarrow> int \<times> lsm_cursor \<times> lsm_db" where
  "slice_move dir c e =
     (case dir of
        PY_LSM_SLICE_FORWARD \<Rightarrow> lsm_csr_next c e
      | PY_LSM_SLICE_BACKWARD \<Rightarrow> lsm_csr_prev c e)"

definition slice_cmp_stop :: "bytes option \<Rightarrow> lsm_cursor \<Rightarrow> lsm_db \<Rightarrow> int \<times> int \<times> lsm_db" where
  "slice_cmp_stop stop c e =
     (case stop of
        None \<Rightarrow> (0, - 65535, e)
      | Some k \<Rightarrow> lsm_csr_cmp c k e)"

definition slice_past_stop :: "bytes option \<Rightarrow> slice_dir \<Rightarrow> int \<Rightarrow> bool" where
  "slice_past_stop stop dir cmp_res =
     (if stop = None then False
      else if dir = PY_LSM_SLICE_FORWARD \<and> cmp_res > 0 then True
      else if dir = PY_LSM_SLICE_BACKWARD \<and> cmp_res < 0 then True
      else False)"

text \<open>
  \<^verbatim>\<open>pylsm_slice_first\<close> and \<^verbatim>\<open>pylsm_slice_next\<close> return a C \<^verbatim>\<open>int\<close>: \<open>0\<close> to
  yield the entry under the cursor, \<open>- 1\<close> when the range is exhausted, an engine code
  otherwise. The result here is \<open>None\<close> where the C code has undefined behaviour.
\<close>

definition pylsm_slice_first :: "LSMSliceView \<Rightarrow> lsm_db \<Rightarrow> int option \<times> lsm_db" where
  "pylsm_slice_first self e =
     (case sl_cursor self of
        None \<Rightarrow> (None, e)
      | Some c \<Rightarrow>
          (let (rc, cmp_res, e1) = slice_cmp_stop (pStop self) c e
           in if rc \<noteq> 0 then (Some rc, e1)
              else if slice_past_stop (pStop self) (direction self) cmp_res
                then (Some (- 1), e1)
              else
                (let (v, e2) = lsm_csr_valid c e1
                 in if \<not> v then (Some (- 1), e2) else (Some 0, e2))))"

text \<open>
  One turn of the \<^verbatim>\<open>while\<close> loop of \<^verbatim>\<open>pylsm_slice_next\<close>: either the function
  returns (\<open>Return\<close>), or the loop goes round again (\<open>Again\<close>). \<open>slice_move\<close> is the
  \<^verbatim>\<open>switch\<close> on the direction, \<open>slice_cmp_stop\<close> the comparison with the stop key
  (\<open>cmp_res\<close> keeps its initial value \<open>- 65535\<close> when there is none) and
  \<open>slice_past_stop\<close> the two tests that leave the loop. The remainder
  \<^verbatim>\<open>counter % step\<close> is C's, which truncates; with \<open>step = 0\<close> it is undefined.
\<close>

datatype loop_ctl = Return "int option" | Again

definition slice_next_body :: "LSMSliceView \<Rightarrow> lsm_db \<Rightarrow> loop_ctl \<times> LSMSliceView \<times> lsm_db" where
  "slice_next_body self e =
     (case sl_cursor self of
        None \<Rightarrow> (Return None, self, e)
      | Some c \<Rightarrow>
          (let (v, e1) = lsm_csr_valid c e in
           if \<not> v then (Return (Some (- 1)), self, e1)
           else
             let (rc, c1, e2) = slice_move (direction self) c e1;
                 self1 = self\<lparr>sl_cursor := Some c1\<rparr>
             in if rc \<noteq> 0 then (Return (Some rc), self1, e2)
                else
                  let (v2, e3) = lsm_csr_valid c1 e2 in
                  if \<not> v2 then (Return (Some (- 1)), self1, e3)
                  else
                    let (rc3, cmp_res, e4) = slice_cmp_stop (pStop self1) c1 e3 in
                    if rc3 \<noteq> 0 then (Return (Some rc3), self1, e4)
                    else if slice_past_stop (pStop self1) (direction self1) cmp_res
                      then (Return (Some (- 1)), self1, e4)
                    else
                      let self2 = self1\<lparr>counter := counter self1 + 1\<rparr>
                      in if step self2 = 0 then (Return None, self2, e4)
                         else if counter self2 smod step self2 = 0
                           then (Return (Some 0), self2, e4)
                         else (Again, self2, e4)))"

text \<open>
  What is left for the cursor of a slice to visit, in its direction: the measure that
  makes the loop terminate.
\<close>

definition csr_room :: "slice_dir \<Rightarrow> lsm_cursor \<Rightarrow> nat" where
  "csr_room dir c =
     (case pos c of
        None \<Rightarrow> 0
      | Some i \<Rightarrow>
          (case dir of
             PY_LSM_SLICE_FORWARD \<Rightarrow> length (snap c) - i
           | PY_LSM_SLICE_BACKWARD \<Rightarrow> Suc i))"

definition slice_room :: "LSMSliceView \<Rightarrow> nat" where
  "slice_room self =
     (case sl_cursor self of
        None \<Rightarrow> 0
      | Some c \<Rightarrow> csr_room (direction self) c)"

lemma slice_move_room:
  assumes "fst (slice_move dir c e) = 0"
    and "csr_on_entry (fst (snd (slice_move dir c e)))"
  shows "csr_room dir (fst (snd (slice_move dir c e))) < csr_room dir c"
proof (cases "fst (ecall (case dir of PY_LSM_SLICE_FORWARD \<Rightarrow> E_csr_next
                                     | PY_LSM_SLICE_BACKWARD \<Rightarrow> E_csr_prev) e) = LSM_OK")
  case True
  then show ?thesis
    using assms(2)
    by (cases dir; cases "pos c")
       (auto simp add: slice_move_def lsm_csr_next_def lsm_csr_prev_def split_def Let_def
          csr_room_def csr_on_entry_def split: if_splits)
next
  case False
  then show ?thesis
    using assms(1)
    by (cases dir) (simp_all add: slice_move_def lsm_csr_next_def lsm_csr_prev_def split_def Let_def LSM_OK_def)
qed

lemma slice_next_body_Again:
  assumes "fst (slice_next_body self e) = Again"
  shows "\<exists>c. sl_cursor self = Some c
           \<and> fst (slice_move (direction self) c (snd (lsm_csr_valid c e))) = 0
           \<and> csr_on_entry (fst (snd (slice_move (direction self) c (snd (lsm_csr_valid c e)))))
           \<and> sl_cursor (fst (snd (slice_next_body self e))) =
               Some (fst (snd (slice_move (direction self) c (snd (lsm_csr_valid c e)))))
           \<and> direction (fst (snd (slice_next_body self e))) = direction self"
proof (cases "sl_cursor self")
  case None
  with assms show ?thesis by (simp add: slice_next_body_def)
next
  case (Some c)
  obtain v e1 where V: "lsm_csr_valid c e = (v, e1)"
    by (cases "lsm_csr_valid c e")
  obtain rc c1 e2 where M: "slice_move (direction self) c e1 = (rc, c1, e2)"
    by (cases "slice_move (direction self) c e1")
  obtain v2 e3 where V2: "lsm_csr_valid c1 e2 = (v2, e3)"
    by (cases "lsm_csr_valid c1 e2")
  obtain rc3 cmp_res e4 where C: "slice_cmp_stop (pStop self) c1 e3 = (rc3, cmp_res, e4)"
    by (cases "slice_cmp_stop (pStop self) c1 e3")
  have on: "v2 = csr_on_entry c1"
    using V2 by (simp add: lsm_csr_valid_def)
  from assms show ?thesis
    by (simp add: slice_next_body_def Let_def Some V M V2 C on split: if_splits)
qed

lemma slice_next_body_room:
  assumes "fst (slice_next_body self e) = Again"
  shows "slice_room (fst (snd (slice_next_body self e))) < slice_room self"
proof -
  from slice_next_body_Again [OF assms] obtain c where
    c: "sl_cursor self = Some c"
    and m: "fst (slice_move (direction self) c (snd (lsm_csr_valid c e))) = 0"
    and on: "csr_on_entry (fst (snd (slice_move (direction self) c (snd (lsm_csr_valid c e)))))"
    and c': "sl_cursor (fst (snd (slice_next_body self e))) =
               Some (fst (snd (slice_move (direction self) c (snd (lsm_csr_valid c e)))))"
    and d: "direction (fst (snd (slice_next_body self e))) = direction self"
    by blast
  show ?thesis
    using slice_move_room [OF m on] by (simp add: slice_room_def c c' d)
qed

function pylsm_slice_next :: "LSMSliceView \<Rightarrow> lsm_db \<Rightarrow> int option \<times> LSMSliceView \<times> lsm_db" where
  "pylsm_slice_next self e =
     (let r = slice_next_body self e
      in case fst r of
           Return rc \<Rightarrow> (rc, snd r)
         | Again \<Rightarrow> pylsm_slice_next (fst (snd r)) (snd (snd r)))"
  by pat_completeness auto
termination
proof (relation "measure (\<lambda>p. slice_room (fst p))")
  show "wf (measure (\<lambda>p. slice_room (fst p)))"
    by simp
next
  fix self e r
  assume "r = slice_next_body self e" and "fst r = Again"
  then show "((fst (snd r), snd (snd r)), (self, e)) \<in> measure (\<lambda>p. slice_room (fst p))"
    by (simp add: slice_next_body_room)
qed

text \<open>
  \<^verbatim>\<open>pylsm_cursor_items_fetch\<close>: the pair under the cursor; the result codes of the
  two engine calls are not looked at. In text mode key and value are decoded, and the
  results are handed to \<^verbatim>\<open>PyTuple_Pack\<close> and \<^verbatim>\<open>Py_DECREF\<close> unchecked: when a
  decoding has failed these receive a null pointer, which is undefined behaviour. The
  result \<open>None\<close> stands for that case.
\<close>

definition pylsm_cursor_items_fetch ::
    "lsm_cursor \<Rightarrow> bool \<Rightarrow> lsm_db \<Rightarrow> pyobj option \<times> lsm_db" where
  "pylsm_cursor_items_fetch c bin e =
     (let (rc1, pKey, e1) = lsm_csr_key c e;
          (rc2, pValue, e2) = lsm_csr_value c e1;
          pyKey = (if bin then Some (Py_Bytes pKey) else PyUnicode_FromStringAndSize pKey);
          pyValue = (if bin then Some (Py_Bytes pValue) else PyUnicode_FromStringAndSize pValue)
      in (case pyKey of
            None \<Rightarrow> None
          | Some k \<Rightarrow>
              (case pyValue of
                 None \<Rightarrow> None
               | Some v \<Rightarrow> Some (Py_Tuple k v)),
          e2))"

text \<open>
  The end of \<^verbatim>\<open>LSMSliceView_next\<close>, after the mutex has been left: \<open>rc\<close> is the
  result of \<^verbatim>\<open>pylsm_slice_first\<close> or \<^verbatim>\<open>pylsm_slice_next\<close>.
\<close>

definition slice_next_result ::
    "int option \<Rightarrow> LSMSliceView \<Rightarrow> LSM \<Rightarrow> pyobj option \<times> LSMSliceView \<times> LSM" where
  "slice_next_result rc self1 d3 =
     (case rc of
        None \<Rightarrow> (None, self1, PyErr_Set ProcessCrash d3)
      | Some r \<Rightarrow>
          (if r = - 1
           then (None, self1\<lparr>sl_state := PY_LSM_CLOSED\<rparr>, PyErr_Set StopIteration d3)
           else
             (let (rc', d4) = pylsm_error r d3 in
              if rc' \<noteq> 0 then (None, self1, d4)
              else
                (case sl_cursor self1 of
                   None \<Rightarrow> (None, self1, PyErr_Set ProcessCrash d4)
                 | Some c1 \<Rightarrow>
                     (let (v2, e3) = lsm_csr_valid c1 (lsm d4);
                          d5 = d4\<lparr>lsm := e3\<rparr>
                      in if \<not> v2
                         then (None, self1\<lparr>sl_state := PY_LSM_CLOSED\<rparr>,
                               PyErr_Set StopIteration d5)
                         else
                           (let (item, e4) = pylsm_cursor_items_fetch c1 (binary d5) (lsm d5)
                            in (case item of
                                  None \<Rightarrow>
                                    (None, self1, PyErr_Set ProcessCrash (d5\<lparr>lsm := e4\<rparr>))
                                | Some it \<Rightarrow> (Some it, self1, d5\<lparr>lsm := e4\<rparr>))))))))"

definition LSMSliceView_next :: "LSMSliceView \<Rightarrow> LSM \<Rightarrow> pyobj option \<times> LSMSliceView \<times> LSM" where
  "LSMSliceView_next self db =
     (let (rc0, d0) = pylsm_ensure_opened db in
      if rc0 \<noteq> 0 then (None, self, d0)
      else if sl_state self = PY_LSM_CLOSED then (None, self, PyErr_Set StopIteration d0)
      else if sl_state self \<noteq> PY_LSM_OPENED \<and> sl_state self \<noteq> PY_LSM_ITERATING
        then (None, self, PyErr_Set RuntimeError d0)
      else
        (case sl_cursor self of
           None \<Rightarrow> (None, self, PyErr_Set ProcessCrash d0)
         | Some c \<Rightarrow>
             (let (v, e) = lsm_csr_valid c (lsm d0);
                  d1 = d0\<lparr>lsm := e\<rparr>
              in if \<not> v
                 then (None, self\<lparr>sl_state := PY_LSM_CLOSED\<rparr>, PyErr_Set StopIteration d1)
                 else
                   (let d2 = LSM_MutexLock d1;
                        (rc, self1, e2) =
                          (if sl_state self = PY_LSM_OPENED
                           then (let r = pylsm_slice_first (self\<lparr>sl_state := PY_LSM_ITERATING\<rparr>) (lsm d2)
                                 in (fst r, self\<lparr>sl_state := PY_LSM_ITERATING\<rparr>, snd r))
                           else pylsm_slice_next self (lsm d2));
                        d3 = LSM_MutexLeave (d2\<lparr>lsm := e2\<rparr>)
                    in slice_next_result rc self1 d3))))"

text \<open>
  The consumer of the iterator (a \<^verbatim>\<open>for\<close> loop, \<^verbatim>\<open>list\<close>): it pulls until the
  iterator returns the null pointer. \<open>fuel\<close> bounds the number of pulls.
\<close>

fun pull_all :: "nat \<Rightarrow> LSMSliceView \<Rightarrow> LSM \<Rightarrow> pyobj list \<times> LSMSliceView \<times> LSM" where
  "pull_all 0 self db = ([], self, db)"
| "pull_all (Suc fuel) self db =
     (case LSMSliceView_next self db of
        (None, self', db') \<Rightarrow> ([], self', db')
      | (Some item, self', db') \<Rightarrow>
          (let (items, self'', db'') = pull_all fuel self' db'
           in (item # items, self'', db'')))"

section \<open>Construction of a connection\<close>

text \<open>
  \<^verbatim>\<open>is_power_of_two\<close> compares the ceiling and the floor of \<^verbatim>\<open>log2(n)\<close>, computed
  in double precision. The logarithm is the real one here: on 32-bit arguments the
  double is an integer exactly when the real logarithm is (a power of two has an exact
  logarithm, and the logarithm of any other 32-bit number is further from an integer
  than a double near 32 is from its neighbour).
\<close>

definition is_power_of_two :: "32 word \<Rightarrow> bool" where
  "is_power_of_two n =
     (if n = 0 then False
      else \<lceil>log 2 (real (unat n))\<rceil> = \<lfloor>log 2 (real (unat n))\<rfloor>)"

text \<open>
  The keyword arguments of the constructor, as the Python values the caller passes; an
  argument left out is the default the code stores before parsing (\<open>default_args\<close>).
  The path is left out: it only names the file. Formats of the parser: \<^verbatim>\<open>i\<close> is a C
  \<^verbatim>\<open>int\<close> with a range check, \<^verbatim>\<open>I\<close> an \<^verbatim>\<open>unsigned int\<close> taken modulo \<open>2 ^ 32\<close>
  without a check and stored in an \<^verbatim>\<open>int\<close> field, \<^verbatim>\<open>p\<close> a truth value.
\<close>

datatype logger_arg = No_logger | Callable_logger | Other_logger

record lsm_init_args =
  a_autoflush :: int
  a_page_size :: int
  a_safety :: int
  a_block_size :: int
  a_automerge :: int
  a_max_freelist :: int
  a_autocheckpoint :: int
  a_autowork :: bool
  a_mmap :: bool
  a_use_log :: bool
  a_multiple_processes :: bool
  a_readonly :: bool
  a_binary :: bool
  a_logger :: logger_arg
  a_compress :: pyobj
  a_compress_level :: int

definition PYLSM_DEFAULT_COMPRESS_LEVEL :: int where "PYLSM_DEFAULT_COMPRESS_LEVEL = - 65535"
definition LSM_MAX_AUTOFLUSH :: int where "LSM_MAX_AUTOFLUSH = 1048576"
definition LZ4_COMP_LEVEL_DEFAULT :: int where "LZ4_COMP_LEVEL_DEFAULT = 16"
definition LZ4_COMP_LEVEL_MAX :: int where "LZ4_COMP_LEVEL_MAX = 16"

text \<open>
  Modelled from the spec: two constants of the zstd library (its default and its
  highest compression level), which is not part of the sources at hand; the spec only
  speaks of an algorithm-specific level range.
\<close>

definition ZSTD_CLEVEL_DEFAULT :: int where "ZSTD_CLEVEL_DEFAULT = 3"
definition ZSTD_maxCLevel :: int where "ZSTD_maxCLevel = 22"

definition default_args :: lsm_init_args where
  "default_args =
     \<lparr>a_autoflush = 1024, a_page_size = 4 * 1024, a_safety = LSM_SAFETY_NORMAL,
      a_block_size = 1024, a_automerge = 4, a_max_freelist = 24, a_autocheckpoint = 2048,
      a_autowork = True, a_mmap = False, a_use_log = True, a_multiple_processes = True,
      a_readonly = False, a_binary = True, a_logger = No_logger, a_compress = Py_None,
      a_compress_level = PYLSM_DEFAULT_COMPRESS_LEVEL\<rparr>"

text \<open>The settings as the struct holds them after parsing: C \<^verbatim>\<open>int\<close>s.\<close>

record lsm_settings =
  autoflush :: int
  page_size :: int
  safety :: int
  block_size :: "32 word"
  automerge :: int
  max_freelist :: int
  autocheckpoint :: int
  autowork :: bool
  mmap :: bool
  use_log :: bool
  multiple_processes :: bool
  s_readonly :: bool
  s_binary :: bool
  compress_level :: int
  compressed :: bool

definition fmt_I :: "int \<Rightarrow> int" where
  "fmt_I x = sint (word_of_int x :: 32 word)"

definition fits_int :: "int \<Rightarrow> bool" where
  "fits_int x = (- INT_MAX - 1 \<le> x \<and> x \<le> INT_MAX)"

text \<open>
  The first half of \<^verbatim>\<open>LSM_init\<close>: parsing and validation, in the order of the code.
  It ends either with the exception raised or with the settings to configure. The block
  size is kept as the 32 bits the parser stored: the code reads them as
  \<^verbatim>\<open>uint32_t\<close> in \<^verbatim>\<open>is_power_of_two\<close> and as \<^verbatim>\<open>int\<close> in the two comparisons.
\<close>

definition LSM_init_validate :: "lsm_init_args \<Rightarrow> pyexc + lsm_settings" where
  "LSM_init_validate a =
     (if \<not> (fits_int (a_autoflush a) \<and> fits_int (a_page_size a)
             \<and> fits_int (a_compress_level a))
      then Inl OverflowError
      else
        let bs = (word_of_int (a_block_size a) :: 32 word);
            acp = fmt_I (a_autocheckpoint a);
            sf = fmt_I (a_safety a)
        in if a_autoflush a > LSM_MAX_AUTOFLUSH then Inl ValueError
           else if a_autoflush a < 0 then Inl ValueError
           else if acp \<le> 0 then Inl ValueError
           else if \<not> (is_power_of_two bs \<and> sint bs \<ge> 64 \<and> sint bs < 65537) then Inl ValueError
           else if sf \<noteq> LSM_SAFETY_OFF \<and> sf \<noteq> LSM_SAFETY_NORMAL \<and> sf \<noteq> LSM_SAFETY_FULL
             then Inl ValueError
           else
             (case (case a_compress a of
                      Py_None \<Rightarrow> Inr (False, a_compress_level a)
                    | Py_Str c \<Rightarrow>
                        if c = ''none'' then Inr (False, a_compress_level a)
                        else if c = ''lz4'' then
                          (let lv = (if a_compress_level a = PYLSM_DEFAULT_COMPRESS_LEVEL
                                     then LZ4_COMP_LEVEL_DEFAULT else a_compress_level a)
                           in if lv > LZ4_COMP_LEVEL_MAX \<or> lv < 1 then Inl ValueError
                              else Inr (True, lv))
                        else if c = ''zstd'' then
                          (let lv = (if a_compress_level a = PYLSM_DEFAULT_COMPRESS_LEVEL
                                     then ZSTD_CLEVEL_DEFAULT else a_compress_level a)
                           in if lv > ZSTD_maxCLevel \<or> lv < 1 then Inl ValueError
                              else Inr (True, lv))
                        else Inl ValueError
                    | _ \<Rightarrow> Inl ValueError) of
                Inl x \<Rightarrow> Inl x
              | Inr (cmpr, lv) \<Rightarrow>
                  if a_logger a = Other_logger then Inl ValueError
                  else Inr \<lparr>autoflush = a_autoflush a, page_size = a_page_size a, safety = sf,
                            block_size = bs, automerge = fmt_I (a_automerge a),
                            max_freelist = fmt_I (a_max_freelist a), autocheckpoint = acp,
                            autowork = a_autowork a, mmap = a_mmap a, use_log = a_use_log a,
                            multiple_processes = a_multiple_processes a,
                            s_readonly = a_readonly a, s_binary = a_binary a,
                            compress_level = lv, compressed = cmpr\<rparr>))"

text \<open>
  Modelled from the spec: \<^verbatim>\<open>lsm_new\<close>, the creation of the mutex and
  \<^verbatim>\<open>lsm_config\<close> of the engine contract, as fallible calls that leave their mark in
  the trace.
\<close>

definition lsm_new :: "lsm_db \<Rightarrow> int \<times> lsm_db" where
  "lsm_new e = ecall E_new e"

definition xMutexNew :: "lsm_db \<Rightarrow> int \<times> lsm_db" where
  "xMutexNew e = ecall E_mutex_new e"

definition lsm_config :: "lsm_db \<Rightarrow> cfg_key \<Rightarrow> int \<Rightarrow> int \<times> lsm_db" where
  "lsm_config e k v = ecall (E_config k v) e"

text \<open>The run of \<^verbatim>\<open>if (pylsm_error(lsm_config(...))) return -1;\<close> statements.\<close>

fun pylsm_configs :: "(cfg_key \<times> int) list \<Rightarrow> LSM \<Rightarrow> int \<times> LSM" where
  "pylsm_configs [] db = (0, db)"
| "pylsm_configs ((k, v) # rest) db =
     (let (rc, e) = lsm_config (lsm db) k v;
          (rc', d1) = pylsm_error rc (db\<lparr>lsm := e\<rparr>)
      in if rc' \<noteq> 0 then (- 1, d1) else pylsm_configs rest d1)"

definition of_bool_int :: "bool \<Rightarrow> int" where
  "of_bool_int b = (if b then 1 else 0)"

text \<open>
  \<^verbatim>\<open>LSM_init\<close>: \<open>env\<close> is the engine \<^verbatim>\<open>lsm_new\<close> will hand out. The value passed
  with \<^verbatim>\<open>LSM_CONFIG_SET_COMPRESSION\<close> is a table of functions, \<open>0\<close> here.
\<close>

definition LSM_init :: "lsm_init_args \<Rightarrow> lsm_db \<Rightarrow> int \<times> LSM" where
  "LSM_init a env =
     (let self = \<lparr>state = PY_LSM_INITIALIZED, readonly = a_readonly a, binary = a_binary a,
                  tx_level = 0, lsm = env, pyerr = None\<rparr>
      in case LSM_init_validate a of
           Inl x \<Rightarrow> (- 1, PyErr_Set x self)
         | Inr st \<Rightarrow>
             (let (rc1, e1) = lsm_new (lsm self);
                  (rc1', s1) = pylsm_error rc1 (self\<lparr>lsm := e1\<rparr>)
              in if rc1' \<noteq> 0 then (- 1, s1)
                 else
                   (let (rc2, e2) = xMutexNew (lsm s1);
                        (rc2', s2) = pylsm_error rc2 (s1\<lparr>lsm := e2\<rparr>)
                    in if rc2' \<noteq> 0 then (- 1, s2)
                       else
                         (let (rc3, s3) =
                                pylsm_configs
                                  ((if compressed st then [(LSM_CONFIG_SET_COMPRESSION, 0)] else []) @
                                   [(LSM_CONFIG_BLOCK_SIZE, sint (block_size st)),
                                    (LSM_CONFIG_MULTIPLE_PROCESSES, of_bool_int (multiple_processes st)),
                                    (LSM_CONFIG_PAGE_SIZE, page_size st),
                                    (LSM_CONFIG_READONLY, of_bool_int (s_readonly st)),
                                    (LSM_CONFIG_AUTOCHECKPOINT, autocheckpoint st),
                                    (LSM_CONFIG_AUTOFLUSH, autoflush st),
                                    (LSM_CONFIG_AUTOMERGE, automerge st),
                                    (LSM_CONFIG_AUTOWORK, of_bool_int (autowork st)),
                                    (LSM_CONFIG_MAX_FREELIST, max_freelist st),
                                    (LSM_CONFIG_MMAP, of_bool_int (mmap st)),
                                    (LSM_CONFIG_SAFETY, safety st),
                                    (LSM_CONFIG_USE_LOG, of_bool_int (use_log st))]) s2
                          in if rc3 \<noteq> 0 then (- 1, s3)
                             else if PyErr_Occurred s3 then (- 1, s3)
                             else (0, s3)))))"

section \<open>The mutex discipline, as a property of a trace\<close>

text \<open>
  \<open>guarded h tr\<close>: every engine call of the trace \<open>tr\<close> happens while the mutex is held,
  \<open>h\<close> telling whether it is held at the start.
\<close>

fun guarded :: "bool \<Rightarrow> event list \<Rightarrow> bool" where
  "guarded h [] = True"
| "guarded h (MutexEnter # es) = guarded True es"
| "guarded h (MutexLeave # es) = guarded False es"
| "guarded h (Call c # es) = (h \<and> guarded h es)"

section \<open>Concrete connections for the examples\<close>

text \<open>An opened, writable connection in text mode on an empty store, the engine healthy.\<close>

definition engine0 :: lsm_db where
  "engine0 = \<lparr>rows = [], marks = [], script = [], trace = []\<rparr>"

definition db0 :: LSM where
  "db0 = \<lparr>state = PY_LSM_OPENED, readonly = False, binary = False, tx_level = 0,
          lsm = engine0, pyerr = None\<rparr>"

text \<open>The same connection when the engine answers its next call with \<open>LSM_BUSY\<close>.\<close>

definition db_busy :: LSM where
  "db_busy = db0\<lparr>lsm := engine0\<lparr>script := [LSM_BUSY]\<rparr>, tx_level := 1\<rparr>"

text \<open>
  A scope of level 1 in which \<open>x = 1\<close> has been written, the handle of that scope, and
  the engine after the handle has committed and \<open>x = 2\<close> has been written.
\<close>

definition db_x1 :: LSM where
  "db_x1 = snd (LSM_set_del_item (snd (LSM_begin db0)) (Py_Str ''x'') (Some (Py_Str ''1'')))"

definition tx1 :: LSMTransaction where
  "tx1 = \<lparr>txn_level = 1, txn_state = PY_LSM_INITIALIZED\<rparr>"

definition engine_x2 :: lsm_db where
  "engine_x2 = lsm (snd (LSM_set_del_item (snd (LSMTransaction_commit tx1 db_x1))
                            (Py_Str ''x'') (Some (Py_Str ''2''))))"

text \<open>The store with the single entry \<open>k0 \<mapsto> 0\<close>.\<close>

definition db_k0 :: LSM where
  "db_k0 = snd (LSM_set_del_item db0 (Py_Str ''k0'') (Some (Py_Str ''0'')))"

text \<open>
  Two nested transactions, \<^verbatim>\<open>t1 = db.tx(); t2 = db.tx()\<close>: the connection after both,
  and the outer handle \<^verbatim>\<open>t1\<close>.
\<close>

definition tx_outer :: LSMTransaction where
  "tx_outer = the (fst (LSM_transaction db0))"

definition db_two :: LSM where
  "db_two = snd (LSM_transaction (snd (LSM_transaction db0)))"

text \<open>
  A cursor on that store, the connection after the cursor has been opened, and the
  cursor after a seek of \<open>k0\<close> with \<open>LSM_SEEK_EQ\<close> and with \<open>LSM_SEEK_LEFAST\<close>.
\<close>

definition cur_k0 :: LSMCursor where
  "cur_k0 = the (fst (LSMCursor_new db_k0 LSM_SEEK_GE))"

definition db_cur :: LSM where
  "db_cur = snd (LSMCursor_new db_k0 LSM_SEEK_GE)"

definition cur_eq :: LSMCursor where
  "cur_eq = fst (snd (LSMCursor_seek cur_k0 (Py_Str ''k0'') (Some LSM_SEEK_EQ) db_cur))"

definition cur_lefast :: LSMCursor where
  "cur_lefast = fst (snd (LSMCursor_seek cur_k0 (Py_Str ''k0'') (Some LSM_SEEK_LEFAST) db_cur))"

section \<open>What a slice is expected to yield\<close>








text \<open>
  \<^verbatim>\<open>list(db[start:stop:step])\<close>: the slice branch of \<^verbatim>\<open>LSM_getitem\<close> builds the view
  (\<^verbatim>\<open>LSMSliceView_new\<close>, \<^verbatim>\<open>LSMSliceView_init\<close>), the interpreter calls
  \<^verbatim>\<open>__iter__\<close> and then \<^verbatim>\<open>__next__\<close> until it returns the null pointer.
  \<open>slice_run\<close> gives the list and the connection as the run leaves it. The list is
  \<open>None\<close> when building the view or \<^verbatim>\<open>__iter__\<close> raised, or the iteration ended
  otherwise than by \<^verbatim>\<open>StopIteration\<close>. \<open>trace_of_slice\<close> is the trace of the engine
  after the run.
\<close>

definition slice_run ::
    "nat \<Rightarrow> LSM \<Rightarrow> pyobj \<Rightarrow> pyobj \<Rightarrow> pyobj \<Rightarrow> pyobj list option \<times> LSM" where
  "slice_run fuel db start stop step_obj =
     (let (rc, view, d1) = LSMSliceView_init LSMSliceView_new db start stop step_obj in
      if rc \<noteq> 0 then (None, d1)
      else
        let (ok, view1, d2) = LSMSliceView_iter view d1 in
        if \<not> ok then (None, d2)
        else
          let (items, view2, d3) = pull_all fuel view1 d2 in
          (if pyerr d3 = Some StopIteration then Some items else None, d3))"

definition list_of_slice :: "nat \<Rightarrow> LSM \<Rightarrow> pyobj \<Rightarrow> pyobj \<Rightarrow> pyobj \<Rightarrow> pyobj list option" where
  "list_of_slice fuel db start stop step_obj = fst (slice_run fuel db start stop step_obj)"


text \<open>
  The movements of cursors in a trace, in order: the calls that position a cursor
  (\<^verbatim>\<open>lsm_csr_seek\<close>, \<^verbatim>\<open>lsm_csr_first\<close>, \<^verbatim>\<open>lsm_csr_last\<close>) and the single steps
  (\<^verbatim>\<open>lsm_csr_next\<close>, \<^verbatim>\<open>lsm_csr_prev\<close>).
\<close>

fun is_move :: "event \<Rightarrow> bool" where
  "is_move (Call (E_csr_seek k m)) = True"
| "is_move (Call E_csr_first) = True"
| "is_move (Call E_csr_last) = True"
| "is_move (Call E_csr_next) = True"
| "is_move (Call E_csr_prev) = True"
| "is_move ev = False"

definition csr_moves :: "event list \<Rightarrow> event list" where
  "csr_moves tr = filter is_move tr"





text \<open>
  A connection in text mode after \<^verbatim>\<open>db.insert(b'k0', b'\\xff')\<close>: \<^verbatim>\<open>insert\<close> takes
  bytes in either mode, and the value is not UTF-8.
\<close>

definition db_ff :: LSM where
  "db_ff = snd (LSM_insert db0 (Py_Bytes ''k0'') (Py_Bytes [CHR 0xFF]))"

section \<open>The course of a cursor, for the proofs about slices\<close>







definition dir_step :: "slice_dir \<Rightarrow> call" where
  "dir_step dir =
     (case dir of PY_LSM_SLICE_FORWARD \<Rightarrow> E_csr_next | PY_LSM_SLICE_BACKWARD \<Rightarrow> E_csr_prev)"



section \<open>Facts about the engine model\<close>

lemma ecall_Nil: "script e = [] \<Longrightarrow> ecall c e = (LSM_OK, e\<lparr>trace := trace e @ [Call c]\<rparr>)"
  by (simp add: ecall_def Let_def)

lemma ecall_Cons:
  "script e = r # rs \<Longrightarrow> ecall c e = (r, e\<lparr>trace := trace e @ [Call c], script := rs\<rparr>)"
  by (simp add: ecall_def Let_def)

lemma ecall_trace: "trace (snd (ecall c e)) = trace e @ [Call c]"
  by (cases "script e") (simp_all add: ecall_Nil ecall_Cons)

lemma ecall_rows: "rows (snd (ecall c e)) = rows e"
  by (cases "script e") (simp_all add: ecall_Nil ecall_Cons)

lemma ecall_marks: "marks (snd (ecall c e)) = marks e"
  by (cases "script e") (simp_all add: ecall_Nil ecall_Cons)

lemma lsm_begin_trace: "trace (snd (lsm_begin e n)) = trace e @ [Call (E_begin n)]"
  by (simp add: lsm_begin_def Let_def split_def ecall_trace)

lemma lsm_commit_trace: "trace (snd (lsm_commit e n)) = trace e @ [Call (E_commit n)]"
  by (simp add: lsm_commit_def Let_def split_def ecall_trace)

lemma lsm_rollback_trace: "trace (snd (lsm_rollback e n)) = trace e @ [Call (E_rollback n)]"
  by (simp add: lsm_rollback_def Let_def split_def ecall_trace)

lemma lsm_begin_fail:
  "script e = r # rs \<Longrightarrow> r \<noteq> LSM_OK \<Longrightarrow> fst (lsm_begin e n) = r"
  by (simp add: lsm_begin_def ecall_Cons)

lemma lsm_commit_fail:
  "script e = r # rs \<Longrightarrow> r \<noteq> LSM_OK \<Longrightarrow> fst (lsm_commit e n) = r"
  by (simp add: lsm_commit_def ecall_Cons)

lemma lsm_rollback_fail:
  "script e = r # rs \<Longrightarrow> r \<noteq> LSM_OK \<Longrightarrow> fst (lsm_rollback e n) = r"
  by (simp add: lsm_rollback_def ecall_Cons)

lemma ensure_writable_ok:
  "state db = PY_LSM_OPENED \<Longrightarrow> \<not> readonly db \<Longrightarrow> pylsm_ensure_writable db = (0, db)"
  by (simp add: pylsm_ensure_writable_def pylsm_ensure_opened_def)

lemma pylsm_error_ok: "pylsm_error LSM_OK db = (LSM_OK, db)"
  by (simp add: pylsm_error_def)

lemma pylsm_error_fail: "rc \<noteq> LSM_OK \<Longrightarrow> pylsm_error rc db = (rc, db\<lparr>pyerr := Some (pylsm_exc rc)\<rparr>)"
  by (simp add: pylsm_error_def PyErr_Set_def)

lemma pylsm_error_fst: "fst (pylsm_error rc db) = rc"
  by (simp add: pylsm_error_def)

lemma pylsm_error_level: "tx_level (snd (pylsm_error rc db)) = tx_level db"
  by (simp add: pylsm_error_def PyErr_Set_def)

lemma pylsm_error_lsm: "lsm (snd (pylsm_error rc db)) = lsm db"
  by (simp add: pylsm_error_def PyErr_Set_def)

lemma pylsm_error_pyerr:
  "pyerr (snd (pylsm_error rc db)) = (if rc = LSM_OK then pyerr db else Some (pylsm_exc rc))"
  by (simp add: pylsm_error_def PyErr_Set_def)

text \<open>What the three inner operations do on an opened, writable connection.\<close>

lemma LSM_begin_writable:
  assumes "state db = PY_LSM_OPENED" and "\<not> readonly db" and "0 \<le> tx_level db"
  shows "LSM_begin db =
     (let r = lsm_begin (lsm db) (tx_level db + 1) in
      if fst r = LSM_OK then (Some Py_True, db\<lparr>lsm := snd r, tx_level := tx_level db + 1\<rparr>)
      else (None, db\<lparr>lsm := snd r, pyerr := Some (pylsm_exc (fst r))\<rparr>))"
  using assms
  by (simp add: LSM_begin_def ensure_writable_ok Let_def split_def pylsm_error_def PyErr_Set_def LSM_OK_def)

lemma LSM_commit_inner_writable:
  assumes "state db = PY_LSM_OPENED" and "\<not> readonly db"
  shows "LSM_commit_inner db n =
     (let r = lsm_commit ((lsm db)\<lparr>trace := trace (lsm db) @ [MutexEnter]\<rparr>) (if n < 0 then 0 else n);
          e = (snd r)\<lparr>trace := trace (snd r) @ [MutexLeave]\<rparr>
      in if fst r = LSM_OK then (Some Py_True, db\<lparr>lsm := e\<rparr>)
         else (None, db\<lparr>lsm := e, pyerr := Some (pylsm_exc (fst r))\<rparr>))"
  using assms
  by (simp add: LSM_commit_inner_def ensure_writable_ok Let_def split_def pylsm_error_def PyErr_Set_def
      LSM_OK_def LSM_MutexLock_def LSM_MutexLeave_def)

lemma LSM_rollback_inner_writable:
  assumes "state db = PY_LSM_OPENED" and "\<not> readonly db"
  shows "LSM_rollback_inner db n =
     (let r = lsm_rollback ((lsm db)\<lparr>trace := trace (lsm db) @ [MutexEnter]\<rparr>) (if n < 0 then 0 else n);
          e = (snd r)\<lparr>trace := trace (snd r) @ [MutexLeave]\<rparr>
      in if fst r = LSM_OK then (Some Py_True, db\<lparr>lsm := e\<rparr>)
         else (None, db\<lparr>lsm := e, pyerr := Some (pylsm_exc (fst r))\<rparr>))"
  using assms
  by (simp add: LSM_rollback_inner_def ensure_writable_ok Let_def split_def pylsm_error_def PyErr_Set_def
      LSM_OK_def LSM_MutexLock_def LSM_MutexLeave_def)


lemma lsm_commit_ok:
  "script e = [] \<Longrightarrow> 0 \<le> n \<Longrightarrow>
   lsm_commit e n = (LSM_OK, e\<lparr>trace := trace e @ [Call (E_commit n)], marks := take (nat n) (marks e)\<rparr>)"
  by (simp add: lsm_commit_def ecall_Nil Let_def)

lemma lsm_begin_ok:
  "script e = [] \<Longrightarrow> 0 \<le> n \<Longrightarrow>
   lsm_begin e n = (LSM_OK, e\<lparr>trace := trace e @ [Call (E_begin n)],
       marks := marks e @ replicate (nat n - length (marks e)) (rows e)\<rparr>)"
  by (simp add: lsm_begin_def ecall_Nil Let_def nat_diff_distrib')

lemma lsm_rollback_ok:
  "script e = [] \<Longrightarrow> 0 < n \<Longrightarrow> n \<le> int (length (marks e)) \<Longrightarrow>
   lsm_rollback e n = (LSM_OK, e\<lparr>trace := trace e @ [Call (E_rollback n)],
       rows := marks e ! (nat n - 1), marks := take (nat n) (marks e)\<rparr>)"
  by (auto simp add: lsm_rollback_def ecall_Nil Let_def)

lemma nth_last_replicate:
  "length xs < m \<Longrightarrow> (xs @ replicate (m - length xs) r) ! (m - 1) = r"
  by (auto simp add: nth_append)


section \<open>C1: rollback and the tracked transaction level\<close>

text \<open>
  What \<^verbatim>\<open>LSM_rollback_inner\<close> does on an opened, writable connection: it rolls the
  engine back to the level it is given, under the mutex, and does not write the tracked
  level \<^verbatim>\<open>tx_level\<close>; \<^verbatim>\<open>LSM_rollback\<close> is the rollback at the tracked level.
\<close>

lemma LSM_rollback_inner_level:
  assumes "state db = PY_LSM_OPENED" and "\<not> readonly db" and "0 < tx_level db" and "0 \<le> n"
  shows "tx_level (snd (LSM_rollback_inner db n)) = tx_level db
       \<and> trace (lsm (snd (LSM_rollback_inner db n))) =
           trace (lsm db) @ [MutexEnter, Call (E_rollback n), MutexLeave]
       \<and> LSM_rollback db = LSM_rollback_inner db (tx_level db)"
proof -
  have "tx_level (snd (LSM_rollback_inner db n)) = tx_level db"
    using assms(1,2) by (simp add: LSM_rollback_inner_writable Let_def)
  moreover have "trace (lsm (snd (LSM_rollback_inner db n))) =
      trace (lsm db) @ [MutexEnter, Call (E_rollback n), MutexLeave]"
    using assms(1,2,4) by (simp add: LSM_rollback_inner_writable Let_def lsm_rollback_trace)
  moreover have "LSM_rollback db = LSM_rollback_inner db (tx_level db)"
    using assms(3) by (simp add: LSM_rollback_def)
  ultimately show ?thesis by simp
qed

text \<open>
  C1. The claim: a successful rollback at level \<open>n\<close> collapses the tracked transaction
  level of the connection to \<open>n\<close>. The code does not: no path of this snapshot lowers
  \<^verbatim>\<open>tx_level\<close>. After \<^verbatim>\<open>t1 = db.tx(); t2 = db.tx()\<close> the tracked level is 2 and the
  engine is two levels deep; \<^verbatim>\<open>t1.rollback()\<close>, the rollback at level 1, succeeds and
  brings the engine back to one level, and the tracked level is still 2 where the claim
  says 1.
\<close>

theorem rollback_keeps_tracked_level:
  "txn_level tx_outer = 1
   \<and> tx_level db_two = 2
   \<and> length (marks (lsm db_two)) = 2
   \<and> fst (LSMTransaction_rollback tx_outer db_two) = Some Py_True
   \<and> pyerr (snd (LSMTransaction_rollback tx_outer db_two)) = None
   \<and> length (marks (lsm (snd (LSMTransaction_rollback tx_outer db_two)))) = 1
   \<and> tx_level (snd (LSMTransaction_rollback tx_outer db_two)) = 2"
  by code_simp


section \<open>C2: what leaving a scope does\<close>

text \<open>
  C2. For a transaction handle of level \<open>n \<ge> 1\<close> that is still open, on an opened
  writable connection: leaving the scope without an exception commits the engine at
  level \<open>n - 1\<close>; leaving it with an exception, or destroying the handle, rolls the
  engine back at level \<open>n\<close>, and no commit is issued. The engine calls are read off
  the trace.
\<close>

theorem scope_exit_actions:
  assumes "state db = PY_LSM_OPENED" and "\<not> readonly db"
    and "txn_state tx \<noteq> PY_LSM_CLOSED" and "1 \<le> txn_level tx" and "exc \<noteq> Py_None"
  shows "trace (lsm (snd (snd (LSMTransaction_ctx_exit tx Py_None db)))) =
           trace (lsm db) @ [MutexEnter, Call (E_commit (txn_level tx - 1)), MutexLeave]
       \<and> trace (lsm (snd (snd (LSMTransaction_ctx_exit tx exc db)))) =
           trace (lsm db) @ [MutexEnter, Call (E_rollback (txn_level tx)), MutexLeave]
       \<and> trace (lsm (LSMTransaction_dealloc tx db)) =
           trace (lsm db) @ [MutexEnter, Call (E_rollback (txn_level tx)), MutexLeave]"
proof -
  have c: "trace (lsm (snd (LSM_commit_inner db (txn_level tx - 1)))) =
      trace (lsm db) @ [MutexEnter, Call (E_commit (txn_level tx - 1)), MutexLeave]"
    using assms(1,2,4) by (simp add: LSM_commit_inner_writable Let_def lsm_commit_trace)
  have r: "trace (lsm (snd (LSM_rollback_inner db (txn_level tx)))) =
      trace (lsm db) @ [MutexEnter, Call (E_rollback (txn_level tx)), MutexLeave]"
    using assms(1,2,4) by (simp add: LSM_rollback_inner_writable Let_def lsm_rollback_trace)
  have "trace (lsm (snd (snd (LSMTransaction_ctx_exit tx Py_None db)))) =
           trace (lsm db) @ [MutexEnter, Call (E_commit (txn_level tx - 1)), MutexLeave]"
    using assms(3) c by (simp add: LSMTransaction_ctx_exit_def Let_def)
  moreover have "trace (lsm (snd (snd (LSMTransaction_ctx_exit tx exc db)))) =
           trace (lsm db) @ [MutexEnter, Call (E_rollback (txn_level tx)), MutexLeave]"
    using assms(3,5) r by (simp add: LSMTransaction_ctx_exit_def Let_def)
  moreover have "trace (lsm (LSMTransaction_dealloc tx db)) =
           trace (lsm db) @ [MutexEnter, Call (E_rollback (txn_level tx)), MutexLeave]"
    using assms(1,3) r by (simp add: LSMTransaction_dealloc_def)
  ultimately show ?thesis by simp
qed


theorem scope_exit_actions_witness:
  "trace (lsm (snd (snd (LSMTransaction_ctx_exit (LSMTransaction_new (snd (LSM_begin db0))) Py_None
                           (snd (LSM_begin db0)))))) =
     [Call (E_begin 1), MutexEnter, Call (E_commit 0), MutexLeave]
   \<and> trace (lsm (snd (snd (LSMTransaction_ctx_exit (LSMTransaction_new (snd (LSM_begin db0))) Py_Other
                           (snd (LSM_begin db0)))))) =
     [Call (E_begin 1), MutexEnter, Call (E_rollback 1), MutexLeave]
   \<and> trace (lsm (LSMTransaction_dealloc (LSMTransaction_new (snd (LSM_begin db0)))
                           (snd (LSM_begin db0)))) =
     [Call (E_begin 1), MutexEnter, Call (E_rollback 1), MutexLeave]"
proof -
  let ?db = "snd (LSM_begin db0)"
  let ?tx = "LSMTransaction_new ?db"
  have a: "state ?db = PY_LSM_OPENED" by code_simp
  have b: "\<not> readonly ?db" by code_simp
  have c: "txn_state ?tx \<noteq> PY_LSM_CLOSED" by code_simp
  have d: "1 \<le> txn_level ?tx" by code_simp
  have e: "Py_Other \<noteq> Py_None" by simp
  have f: "txn_level ?tx = 1" by code_simp
  have g: "trace (lsm ?db) = [Call (E_begin 1)]" by code_simp
  show ?thesis
    using scope_exit_actions [OF a b c d e] f g by simp
qed

section \<open>C3: the commit of a handle reopens its level\<close>

text \<open>
  C3. On a healthy engine the commit of a handle of level \<open>n \<ge> 1\<close> succeeds; it
  commits the engine at level \<open>n - 1\<close> and then begins level \<open>n\<close> again, after which the
  engine is \<open>n\<close> levels deep with the content unchanged, and any later rollback at
  level \<open>n\<close> (deeper levels may have been opened meanwhile: \<open>e2\<close>) restores the content
  as it was at the commit. The commit at the exit of the scope issues the same engine
  commit and no begin, and leaves the engine less than \<open>n\<close> levels deep.
\<close>

lemma commit_inner_healthy:
  assumes "state db = PY_LSM_OPENED" and "\<not> readonly db" and "script (lsm db) = []" and "0 \<le> n"
  shows "LSM_commit_inner db n =
     (Some Py_True, db\<lparr>lsm := (lsm db)\<lparr>
        trace := trace (lsm db) @ [MutexEnter, Call (E_commit n), MutexLeave],
        marks := take (nat n) (marks (lsm db))\<rparr>\<rparr>)"
  using assms by (simp add: LSM_commit_inner_writable lsm_commit_ok Let_def)

theorem handle_commit_reopens:
  assumes "state db = PY_LSM_OPENED" and "\<not> readonly db" and "pyerr db = None"
    and "script (lsm db) = []" and "1 \<le> txn_level tx" and "txn_state tx \<noteq> PY_LSM_CLOSED"
    and "script e2 = []" and "take (nat (txn_level tx)) (marks e2) = marks (lsm (snd (LSMTransaction_commit tx db)))"
  shows "fst (LSMTransaction_commit tx db) = Some Py_True
       \<and> trace (lsm (snd (LSMTransaction_commit tx db))) =
           trace (lsm db) @ [MutexEnter, Call (E_commit (txn_level tx - 1)), MutexLeave,
                             Call (E_begin (txn_level tx))]
       \<and> int (length (marks (lsm (snd (LSMTransaction_commit tx db))))) = txn_level tx
       \<and> rows (lsm (snd (LSMTransaction_commit tx db))) = rows (lsm db)
       \<and> rows (snd (lsm_rollback e2 (txn_level tx))) = rows (lsm db)
       \<and> trace (lsm (snd (snd (LSMTransaction_ctx_exit tx Py_None db)))) =
           trace (lsm db) @ [MutexEnter, Call (E_commit (txn_level tx - 1)), MutexLeave]
       \<and> int (length (marks (lsm (snd (snd (LSMTransaction_ctx_exit tx Py_None db)))))) < txn_level tx"
proof -
  let ?n = "txn_level tx"
  let ?e1 = "(lsm db)\<lparr>trace := trace (lsm db) @ [MutexEnter, Call (E_commit (?n - 1)), MutexLeave],
        marks := take (nat (?n - 1)) (marks (lsm db))\<rparr>"
  have ci: "LSM_commit_inner db (?n - 1) = (Some Py_True, db\<lparr>lsm := ?e1\<rparr>)"
    using assms(1,2,4,5) by (simp add: commit_inner_healthy)
  have len: "length (take (nat (?n - 1)) (marks (lsm db))) < nat ?n"
    using assms(5) by simp
  have bg: "lsm_begin ?e1 ?n = (LSM_OK, ?e1\<lparr>trace := trace ?e1 @ [Call (E_begin ?n)],
       marks := marks ?e1 @ replicate (nat ?n - length (marks ?e1)) (rows ?e1)\<rparr>)"
    using assms(4,5) by (intro lsm_begin_ok) simp_all
  have tc: "LSMTransaction_commit tx db = (Some Py_True, db\<lparr>lsm := ?e1\<lparr>trace := trace ?e1 @ [Call (E_begin ?n)],
       marks := marks ?e1 @ replicate (nat ?n - length (marks ?e1)) (rows ?e1)\<rparr>\<rparr>)"
    using assms(3) by (simp add: LSMTransaction_commit_def ci bg PyErr_Occurred_def pylsm_error_def LSM_OK_def)
  have mk: "marks (lsm (snd (LSMTransaction_commit tx db))) =
      take (nat (?n - 1)) (marks (lsm db)) @
      replicate (nat ?n - length (take (nat (?n - 1)) (marks (lsm db)))) (rows (lsm db))"
    by (simp add: tc)
  have dep: "int (length (marks (lsm (snd (LSMTransaction_commit tx db))))) = ?n"
    using assms(5) by (simp add: mk)
  have lastmark: "marks (lsm (snd (LSMTransaction_commit tx db))) ! (nat ?n - 1) = rows (lsm db)"
    unfolding mk by (rule nth_last_replicate [OF len])
  have e2len: "?n \<le> int (length (marks e2))"
  proof -
    have "length (take (nat ?n) (marks e2)) = nat ?n" using assms(8) dep by simp
    then show ?thesis by simp
  qed
  have "marks e2 ! (nat ?n - 1) = take (nat ?n) (marks e2) ! (nat ?n - 1)"
    using assms(5) by simp
  then have e2mark: "marks e2 ! (nat ?n - 1) = rows (lsm db)"
    using assms(8) lastmark by simp
  have rb: "rows (snd (lsm_rollback e2 ?n)) = rows (lsm db)"
    using assms(5,7) e2len e2mark by (simp add: lsm_rollback_ok)
  have ex: "LSMTransaction_ctx_exit tx Py_None db =
      (Some Py_None, tx\<lparr>txn_state := PY_LSM_CLOSED\<rparr>, db\<lparr>lsm := ?e1\<rparr>)"
    using assms(3,6) by (simp add: LSMTransaction_ctx_exit_def ci Let_def PyErr_Occurred_def)
  show ?thesis
    using assms(5) dep rb by (simp add: tc ex)
qed


theorem handle_commit_reopens_witness:
  "fst (LSMTransaction_commit tx1 db_x1) = Some Py_True
   \<and> rows (lsm db_x1) = [(''x'', ''1'')]
   \<and> rows engine_x2 = [(''x'', ''2'')]
   \<and> rows (snd (lsm_rollback engine_x2 1)) = [(''x'', ''1'')]
   \<and> int (length (marks (lsm (snd (LSMTransaction_commit tx1 db_x1))))) = 1"
proof -
  have a: "state db_x1 = PY_LSM_OPENED" by code_simp
  have b: "\<not> readonly db_x1" by code_simp
  have c: "pyerr db_x1 = None" by code_simp
  have d: "script (lsm db_x1) = []" by code_simp
  have e: "1 \<le> txn_level tx1" by code_simp
  have f: "txn_state tx1 \<noteq> PY_LSM_CLOSED" by code_simp
  have g: "script engine_x2 = []" by code_simp
  have h: "take (nat (txn_level tx1)) (marks engine_x2) =
      marks (lsm (snd (LSMTransaction_commit tx1 db_x1)))" by code_simp
  have i: "rows (lsm db_x1) = [(''x'', ''1'')]" by code_simp
  have j: "rows engine_x2 = [(''x'', ''2'')]" by code_simp
  have k: "txn_level tx1 = 1" by code_simp
  show ?thesis
    using handle_commit_reopens [OF a b c d e f g h] i j k by simp
qed


section \<open>C4: a refusal of the engine leaves the level alone\<close>

lemma LSM_begin_refused:
  assumes "state db = PY_LSM_OPENED" and "\<not> readonly db" and "0 \<le> tx_level db"
    and "script (lsm db) = r # rs" and "r \<noteq> LSM_OK"
  shows "fst (LSM_begin db) = None \<and> pyerr (snd (LSM_begin db)) = Some (pylsm_exc r)
       \<and> tx_level (snd (LSM_begin db)) = tx_level db"
  using assms by (simp add: LSM_begin_writable lsm_begin_fail Let_def)

lemma LSM_commit_inner_refused:
  assumes "state db = PY_LSM_OPENED" and "\<not> readonly db"
    and "script (lsm db) = r # rs" and "r \<noteq> LSM_OK"
  shows "fst (LSM_commit_inner db n) = None \<and> pyerr (snd (LSM_commit_inner db n)) = Some (pylsm_exc r)
       \<and> tx_level (snd (LSM_commit_inner db n)) = tx_level db"
  using assms by (simp add: LSM_commit_inner_writable lsm_commit_fail Let_def)

lemma LSM_rollback_inner_refused:
  assumes "state db = PY_LSM_OPENED" and "\<not> readonly db"
    and "script (lsm db) = r # rs" and "r \<noteq> LSM_OK"
  shows "fst (LSM_rollback_inner db n) = None \<and> pyerr (snd (LSM_rollback_inner db n)) = Some (pylsm_exc r)
       \<and> tx_level (snd (LSM_rollback_inner db n)) = tx_level db"
  using assms by (simp add: LSM_rollback_inner_writable lsm_rollback_fail Let_def)

text \<open>
  C4. On an opened, writable connection (its tracked level a depth, not negative), when
  the engine answers the call of \<^verbatim>\<open>begin\<close>, \<^verbatim>\<open>commit\<close> or \<^verbatim>\<open>rollback\<close> with a
  code \<open>r\<close> other than \<open>LSM_OK\<close>, the operation returns the null pointer with the
  exception of the category of \<open>r\<close> set, and the tracked level is what it was. The same
  holds for the commit and the rollback at any level \<open>n\<close>, which the handles use.
\<close>

theorem engine_refusal_keeps_level:
  assumes "state db = PY_LSM_OPENED" and "\<not> readonly db" and "0 \<le> tx_level db"
    and "script (lsm db) = r # rs" and "r \<noteq> LSM_OK"
  shows "fst (LSM_begin db) = None \<and> pyerr (snd (LSM_begin db)) = Some (pylsm_exc r)
       \<and> tx_level (snd (LSM_begin db)) = tx_level db
       \<and> fst (LSM_commit db) = None \<and> pyerr (snd (LSM_commit db)) = Some (pylsm_exc r)
       \<and> tx_level (snd (LSM_commit db)) = tx_level db
       \<and> fst (LSM_rollback db) = None \<and> pyerr (snd (LSM_rollback db)) = Some (pylsm_exc r)
       \<and> tx_level (snd (LSM_rollback db)) = tx_level db
       \<and> fst (LSM_commit_inner db n) = None \<and> pyerr (snd (LSM_commit_inner db n)) = Some (pylsm_exc r)
       \<and> tx_level (snd (LSM_commit_inner db n)) = tx_level db
       \<and> fst (LSM_rollback_inner db n) = None \<and> pyerr (snd (LSM_rollback_inner db n)) = Some (pylsm_exc r)
       \<and> tx_level (snd (LSM_rollback_inner db n)) = tx_level db"
proof -
  have c: "LSM_commit db = LSM_commit_inner db (tx_level db)"
    using assms(3) by (simp add: LSM_commit_def)
  have r: "LSM_rollback db = LSM_rollback_inner db (tx_level db)"
    using assms(3) by (simp add: LSM_rollback_def)
  show ?thesis
    using LSM_begin_refused [OF assms]
      LSM_commit_inner_refused [OF assms(1,2,4,5)]
      LSM_rollback_inner_refused [OF assms(1,2,4,5)]
    by (simp add: c r)
qed

theorem engine_refusal_keeps_level_witness:
  "fst (LSM_begin db_busy) = None \<and> pyerr (snd (LSM_begin db_busy)) = Some RuntimeError
   \<and> tx_level (snd (LSM_begin db_busy)) = 1
   \<and> fst (LSM_commit db_busy) = None \<and> tx_level (snd (LSM_commit db_busy)) = 1
   \<and> fst (LSM_rollback db_busy) = None \<and> tx_level (snd (LSM_rollback db_busy)) = 1"
proof -
  have a: "state db_busy = PY_LSM_OPENED" by code_simp
  have b: "\<not> readonly db_busy" by code_simp
  have c: "0 \<le> tx_level db_busy" by code_simp
  have d: "script (lsm db_busy) = LSM_BUSY # []" by code_simp
  have e: "LSM_BUSY \<noteq> LSM_OK" by code_simp
  have f: "pylsm_exc LSM_BUSY = RuntimeError" by code_simp
  have g: "tx_level db_busy = 1" by code_simp
  show ?thesis
    using engine_refusal_keeps_level [OF a b c d e, of 0] f g by simp
qed


section \<open>C8: the mutex around engine calls\<close>

text \<open>
  C8. \<^verbatim>\<open>LSM_begin\<close> calls the engine without taking the mutex: on the connection
  \<open>db0\<close> its whole trace is the engine call, and the trace is not guarded. The insert
  and the commit of the same connection take the mutex around their engine call.
\<close>

theorem begin_outside_mutex:
  "trace (lsm (snd (LSM_begin db0))) = [Call (E_begin 1)]
   \<and> \<not> guarded False (trace (lsm (snd (LSM_begin db0))))
   \<and> guarded False (trace (lsm (snd (LSM_insert db0 (Py_Str ''k'') (Py_Str ''v'')))))
   \<and> guarded False (trace (lsm (snd (LSM_commit_inner db0 0))))"
  by code_simp


section \<open>C9: the block size\<close>

lemma log2_integral_iff:
  assumes "0 < (u::nat)"
  shows "\<lceil>log 2 (real u)\<rceil> = \<lfloor>log 2 (real u)\<rfloor> \<longleftrightarrow> (\<exists>k. u = 2 ^ k)"
proof
  let ?m = "\<lfloor>log 2 (real u)\<rfloor>"
  assume "\<lceil>log 2 (real u)\<rceil> = ?m"
  then have eq: "log 2 (real u) = of_int ?m"
    by (simp add: ceiling_altdef split: if_splits)
  have "1 \<le> real u" using assms by simp
  then have "0 \<le> log 2 (real u)" by simp
  then have m0: "0 \<le> ?m" by simp
  have "real u = 2 powr (log 2 (real u))" using assms by simp
  also have "\<dots> = 2 powr (real (nat ?m))" using eq m0 by simp
  also have "\<dots> = 2 ^ nat ?m" by (simp add: powr_realpow)
  finally have "real u = real (2 ^ nat ?m)" by simp
  then have "u = 2 ^ nat ?m" by (simp only: of_nat_eq_iff)
  then show "\<exists>k. u = 2 ^ k" ..
next
  assume "\<exists>k. u = 2 ^ k"
  then obtain k where k: "u = 2 ^ k" ..
  have "log 2 (real u) = real k" by (simp add: k log_nat_power)
  then show "\<lceil>log 2 (real u)\<rceil> = \<lfloor>log 2 (real u)\<rfloor>" by simp
qed

lemma is_power_of_two_iff: "is_power_of_two n \<longleftrightarrow> (\<exists>k. unat n = 2 ^ k)"
proof (cases "n = 0")
  case True
  then show ?thesis by (simp add: is_power_of_two_def)
next
  case False
  then have "0 < unat n" by (simp add: unat_gt_0)
  from log2_integral_iff [OF this] False show ?thesis
    unfolding is_power_of_two_def by (simp only: if_False)
qed

lemma sint32_cases:
  "sint (w::32 word) = (if uint w < 2 ^ 31 then uint w else uint w - 2 ^ 32)"
proof -
  have b: "0 \<le> uint w" "uint w < 2 ^ 32"
    using uint_lt2p [of w] by simp_all
  have s: "sint w = (uint w + 2 ^ 31) mod 2 ^ 32 - 2 ^ 31"
    by (simp add: sint_uint signed_take_bit_eq_take_bit_shift take_bit_eq_mod)
  show ?thesis
  proof (cases "uint w < 2 ^ 31")
    case True
    then have "(uint w + 2 ^ 31) mod 2 ^ 32 = uint w + 2 ^ 31"
      using b by (intro mod_pos_pos_trivial) simp_all
    with True s show ?thesis by simp
  next
    case False
    have "uint w + 2 ^ 31 = (uint w - 2 ^ 31) + 2 ^ 32"
      by simp
    then have "(uint w + 2 ^ 31) mod 2 ^ 32 = ((uint w - 2 ^ 31) + 2 ^ 32) mod 2 ^ 32"
      by (simp only:)
    also have "\<dots> = (uint w - 2 ^ 31) mod 2 ^ 32"
      by (simp only: mod_add_self2)
    also have "\<dots> = uint w - 2 ^ 31"
      using b False by (intro mod_pos_pos_trivial) simp_all
    finally show ?thesis using False s by simp
  qed
qed

lemma pow2_range: "(64::int) \<le> 2 ^ k \<and> (2::int) ^ k < 65537 \<longleftrightarrow> 6 \<le> k \<and> k \<le> 16"
proof -
  have a: "(64::int) \<le> 2 ^ k \<longleftrightarrow> 6 \<le> k"
    using power_increasing_iff [of "2::int" 6 k] by simp
  have b: "(2::int) ^ k < 65537 \<longleftrightarrow> k \<le> 16"
  proof
    assume h: "(2::int) ^ k < 65537"
    show "k \<le> 16"
    proof (rule ccontr)
      assume "\<not> k \<le> 16"
      then have "17 \<le> k" by simp
      then have "(2::int) ^ 17 \<le> 2 ^ k" by (intro power_increasing) simp_all
      with h show False by simp
    qed
  next
    assume "k \<le> 16"
    then have "(2::int) ^ k \<le> 2 ^ 16" by (intro power_increasing) simp_all
    then show "(2::int) ^ k < 65537" by simp
  qed
  from a b show ?thesis by simp
qed

lemma block_size_gate:
  "(is_power_of_two (word_of_int b :: 32 word) \<and> sint (word_of_int b :: 32 word) \<ge> 64
      \<and> sint (word_of_int b :: 32 word) < 65537)
   \<longleftrightarrow> (\<exists>k. 6 \<le> k \<and> k \<le> 16 \<and> b mod 2 ^ 32 = 2 ^ k)"
proof -
  let ?w = "word_of_int b :: 32 word"
  have u: "uint ?w = b mod 2 ^ 32" by (simp add: uint_word_of_int)
  have un: "unat ?w = nat (b mod 2 ^ 32)" using u by (simp add: unat_eq_nat_uint del: nat_uint_eq)
  have nn: "0 \<le> b mod 2 ^ 32" by simp
  show ?thesis
  proof
    assume h: "is_power_of_two ?w \<and> sint ?w \<ge> 64 \<and> sint ?w < 65537"
    then obtain k where k: "unat ?w = 2 ^ k" by (auto simp add: is_power_of_two_iff)
    have "int (unat ?w) = b mod 2 ^ 32" using un nn by simp
    then have bk: "b mod 2 ^ 32 = 2 ^ k" using k by simp
    have "sint ?w = uint ?w"
      using h uint_lt2p [of ?w] by (simp add: sint32_cases [of ?w] split: if_splits)
    then have "sint ?w = 2 ^ k" using u bk by simp
    with h have "6 \<le> k \<and> k \<le> 16" using pow2_range [of k] by simp
    with bk show "\<exists>k. 6 \<le> k \<and> k \<le> 16 \<and> b mod 2 ^ 32 = 2 ^ k" by blast
  next
    assume "\<exists>k. 6 \<le> k \<and> k \<le> 16 \<and> b mod 2 ^ 32 = 2 ^ k"
    then obtain k where k: "6 \<le> k" "k \<le> 16" "b mod 2 ^ 32 = 2 ^ k" by blast
    have r: "(64::int) \<le> 2 ^ k \<and> (2::int) ^ k < 65537" using k pow2_range [of k] by simp
    have "unat ?w = nat (2 ^ k)" using un k by simp
    then have "unat ?w = 2 ^ k" by (simp add: nat_power_eq)
    then have p: "is_power_of_two ?w" by (auto simp add: is_power_of_two_iff)
    have "uint ?w = 2 ^ k" using u k by simp
    moreover from this r have "uint ?w < 2 ^ 31" by simp
    ultimately have "sint ?w = 2 ^ k" by (simp add: sint32_cases [of ?w])
    with p r show "is_power_of_two ?w \<and> sint ?w \<ge> 64 \<and> sint ?w < 65537" by simp
  qed
qed


lemma pylsm_configs_healthy:
  "script (lsm db) = [] \<Longrightarrow>
   fst (pylsm_configs kvs db) = 0 \<and> pyerr (snd (pylsm_configs kvs db)) = pyerr db"
proof (induction kvs arbitrary: db)
  case Nil
  then show ?case by simp
next
  case (Cons kv kvs)
  obtain k v where kv: "kv = (k, v)" by (cases kv)
  let ?e = "(lsm db)\<lparr>trace := trace (lsm db) @ [Call (E_config k v)]\<rparr>"
  have c: "lsm_config (lsm db) k v = (LSM_OK, ?e)"
    using Cons.prems by (simp add: lsm_config_def ecall_Nil)
  have "script (lsm (db\<lparr>lsm := ?e\<rparr>)) = []" using Cons.prems by simp
  from Cons.IH [OF this] show ?case
    by (simp add: kv c pylsm_error_def LSM_OK_def)
qed

lemma pylsm_configs_fst: "script (lsm db) = [] \<Longrightarrow> fst (pylsm_configs kvs db) = 0"
  by (simp add: pylsm_configs_healthy)

lemma pylsm_configs_pyerr:
  "script (lsm db) = [] \<Longrightarrow> pyerr (snd (pylsm_configs kvs db)) = pyerr db"
  by (simp add: pylsm_configs_healthy)

lemma LSM_init_healthy:
  assumes "LSM_init_validate a = Inr st" and "script env = []"
  shows "fst (LSM_init a env) = 0"
proof -
  let ?e1 = "env\<lparr>trace := trace env @ [Call E_new]\<rparr>"
  let ?e2 = "?e1\<lparr>trace := trace ?e1 @ [Call E_mutex_new]\<rparr>"
  have n: "lsm_new env = (LSM_OK, ?e1)" using assms(2) by (simp add: lsm_new_def ecall_Nil)
  have m: "xMutexNew ?e1 = (LSM_OK, ?e2)" using assms(2) by (simp add: xMutexNew_def ecall_Nil)
  show ?thesis
    by (simp add: LSM_init_def assms n m pylsm_error_def LSM_OK_def Let_def split_def
        pylsm_configs_fst pylsm_configs_pyerr PyErr_Occurred_def del: pylsm_configs.simps)
qed

lemma LSM_init_rejected:
  assumes "LSM_init_validate a = Inl x"
  shows "fst (LSM_init a env) = - 1 \<and> pyerr (snd (LSM_init a env)) = Some x
       \<and> lsm (snd (LSM_init a env)) = env"
  by (simp add: LSM_init_def assms PyErr_Set_def)

lemma validate_block_size:
  "LSM_init_validate (default_args\<lparr>a_block_size := b\<rparr>) =
     (if \<exists>k. 6 \<le> k \<and> k \<le> 16 \<and> b mod 2 ^ 32 = 2 ^ k
      then Inr \<lparr>autoflush = 1024, page_size = 4096, safety = 1,
                block_size = word_of_int b, automerge = 4,
                max_freelist = 24, autocheckpoint = 2048,
                autowork = True, mmap = False, use_log = True,
                multiple_processes = True,
                s_readonly = False, s_binary = True,
                compress_level = - 65535, compressed = False\<rparr>
      else Inl ValueError)"
proof -
  let ?g = "is_power_of_two (word_of_int b :: 32 word) \<and> sint (word_of_int b :: 32 word) \<ge> 64
      \<and> sint (word_of_int b :: 32 word) < 65537"
  let ?k = "\<exists>k. 6 \<le> k \<and> k \<le> 16 \<and> b mod 2 ^ 32 = 2 ^ k"
  have g: "?g \<longleftrightarrow> ?k" by (rule block_size_gate)
  show ?thesis
  proof (cases ?g)
    case True
    with g have k: ?k by blast
    have "LSM_init_validate (default_args\<lparr>a_block_size := b\<rparr>) =
            Inr \<lparr>autoflush = 1024, page_size = 4096, safety = 1,
                block_size = word_of_int b, automerge = 4,
                max_freelist = 24, autocheckpoint = 2048,
                autowork = True, mmap = False, use_log = True,
                multiple_processes = True,
                s_readonly = False, s_binary = True,
                compress_level = - 65535, compressed = False\<rparr>"
      using True
      by (simp add: LSM_init_validate_def default_args_def fits_int_def INT_MAX_def fmt_I_def
          LSM_MAX_AUTOFLUSH_def LSM_SAFETY_OFF_def LSM_SAFETY_NORMAL_def LSM_SAFETY_FULL_def
          PYLSM_DEFAULT_COMPRESS_LEVEL_def Let_def)
    with k show ?thesis by (simp only: if_True)
  next
    case False
    with g have k: "\<not> ?k" by blast
    have "LSM_init_validate (default_args\<lparr>a_block_size := b\<rparr>) = Inl ValueError"
      using False
      by (simp add: LSM_init_validate_def default_args_def fits_int_def INT_MAX_def fmt_I_def
          LSM_MAX_AUTOFLUSH_def LSM_SAFETY_OFF_def LSM_SAFETY_NORMAL_def LSM_SAFETY_FULL_def
          PYLSM_DEFAULT_COMPRESS_LEVEL_def Let_def)
    with k show ?thesis by (simp only: if_False)
  qed
qed

lemma gate_1024:
  "is_power_of_two (word_of_int 1024 :: 32 word) \<and> sint (word_of_int 1024 :: 32 word) \<ge> 64
     \<and> sint (word_of_int 1024 :: 32 word) < 65537"
proof -
  have "\<exists>k. 6 \<le> k \<and> k \<le> 16 \<and> (1024::int) mod 2 ^ 32 = 2 ^ k"
    by (rule exI [of _ 10]) simp
  then show ?thesis by (simp only: block_size_gate [of 1024])
qed

lemma validate_other_block_size:
  assumes "LSM_init_validate (a\<lparr>a_block_size := 1024\<rparr>) = Inr st"
  shows "LSM_init_validate (a\<lparr>a_block_size := b\<rparr>) =
     (if \<exists>k. 6 \<le> k \<and> k \<le> 16 \<and> b mod 2 ^ 32 = 2 ^ k
      then Inr (st\<lparr>block_size := word_of_int b\<rparr>)
      else Inl ValueError)"
proof -
  define G where "G = (\<lambda>w :: 32 word. is_power_of_two w \<and> sint w \<ge> 64 \<and> sint w < 65537)"
  have G_app: "(is_power_of_two w \<and> sint w \<ge> 64 \<and> sint w < 65537) = G w" for w
    by (simp add: G_def)
  have g: "G (word_of_int b) \<longleftrightarrow> (\<exists>k. 6 \<le> k \<and> k \<le> 16 \<and> b mod 2 ^ 32 = 2 ^ k)"
    unfolding G_def by (rule block_size_gate)
  have g1: "G (word_of_int 1024)" unfolding G_def by (rule gate_1024)
  define X where "X =
     (case a_compress a of
        Py_None \<Rightarrow> Inr (False, a_compress_level a)
      | Py_Str c \<Rightarrow>
          if c = ''none'' then Inr (False, a_compress_level a)
          else if c = ''lz4'' then
            (let lv = (if a_compress_level a = PYLSM_DEFAULT_COMPRESS_LEVEL
                       then LZ4_COMP_LEVEL_DEFAULT else a_compress_level a)
             in if lv > LZ4_COMP_LEVEL_MAX \<or> lv < 1 then Inl ValueError
                else Inr (True, lv))
          else if c = ''zstd'' then
            (let lv = (if a_compress_level a = PYLSM_DEFAULT_COMPRESS_LEVEL
                       then ZSTD_CLEVEL_DEFAULT else a_compress_level a)
             in if lv > ZSTD_maxCLevel \<or> lv < 1 then Inl ValueError
                else Inr (True, lv))
          else Inl ValueError
      | _ \<Rightarrow> Inl ValueError)"
  define pre where "pre \<longleftrightarrow>
     \<not> a_autoflush a > LSM_MAX_AUTOFLUSH \<and> \<not> a_autoflush a < 0
     \<and> \<not> fmt_I (a_autocheckpoint a) \<le> 0"
  define sfok where "sfok \<longleftrightarrow>
     \<not> (fmt_I (a_safety a) \<noteq> LSM_SAFETY_OFF \<and> fmt_I (a_safety a) \<noteq> LSM_SAFETY_NORMAL
        \<and> fmt_I (a_safety a) \<noteq> LSM_SAFETY_FULL)"
  define fits where "fits \<longleftrightarrow>
     fits_int (a_autoflush a) \<and> fits_int (a_page_size a) \<and> fits_int (a_compress_level a)"
  define R where "R = (\<lambda>(bs :: 32 word) cmpr lv.
     \<lparr>autoflush = a_autoflush a, page_size = a_page_size a, safety = fmt_I (a_safety a),
      block_size = bs, automerge = fmt_I (a_automerge a),
      max_freelist = fmt_I (a_max_freelist a), autocheckpoint = fmt_I (a_autocheckpoint a),
      autowork = a_autowork a, mmap = a_mmap a, use_log = a_use_log a,
      multiple_processes = a_multiple_processes a,
      s_readonly = a_readonly a, s_binary = a_binary a,
      compress_level = lv, compressed = cmpr\<rparr>)"
  have unf: "LSM_init_validate (a\<lparr>a_block_size := x\<rparr>) =
      (if \<not> fits then Inl OverflowError
       else if \<not> pre then Inl ValueError
       else if \<not> G (word_of_int x) then Inl ValueError
       else if \<not> sfok then Inl ValueError
       else (case X of
               Inl e \<Rightarrow> Inl e
             | Inr (cmpr, lv) \<Rightarrow>
                 if a_logger a = Other_logger then Inl ValueError
                 else Inr (R (word_of_int x) cmpr lv)))" for x
    unfolding LSM_init_validate_def Let_def G_app
    by (simp add: fits_def pre_def sfok_def X_def R_def Let_def
        cong: sum.case_cong pyobj.case_cong prod.case_cong if_cong)
  have Rb: "(R w cmpr lv)\<lparr>block_size := w'\<rparr> = R w' cmpr lv" for w w' cmpr lv
    by (simp add: R_def)
  show ?thesis
  proof (cases X)
    case (Inl e)
    with assms show ?thesis by (simp add: unf split: if_splits)
  next
    case (Inr p)
    obtain cmpr lv where p: "p = (cmpr, lv)" by (cases p)
    from assms Inr p g1 have f: fits and pr: pre and sf: sfok
      and lg: "a_logger a \<noteq> Other_logger" and st: "st = R (word_of_int 1024) cmpr lv"
      by (auto simp add: unf split: if_splits)
    show ?thesis
      using f pr sf lg g by (simp add: unf Inr p st Rb)
  qed
qed

text \<open>
  C9 (amended). For any arguments of the constructor whose other values pass validation
  (with a good block size in place, here 1024, validation succeeds) and a healthy
  engine, the constructor accepts the block size \<open>b\<close> exactly when \<open>b\<close>, taken modulo
  \<open>2 ^ 32\<close> as the parser does, is a power of two from 64 to 65536, both included; any
  other value is rejected with \<^verbatim>\<open>ValueError\<close> before any call to the engine. The code
  compares with \<^verbatim>\<open>< 65537\<close>, so that 65536 is accepted.
\<close>

theorem block_size_accepted_iff:
  assumes "script env = []" and "LSM_init_validate (a\<lparr>a_block_size := 1024\<rparr>) = Inr st"
  shows "(fst (LSM_init (a\<lparr>a_block_size := b\<rparr>) env) = 0)
           = (\<exists>k. 6 \<le> k \<and> k \<le> 16 \<and> b mod 2 ^ 32 = 2 ^ k)
       \<and> (if \<exists>k. 6 \<le> k \<and> k \<le> 16 \<and> b mod 2 ^ 32 = 2 ^ k
          then fst (LSM_init (a\<lparr>a_block_size := b\<rparr>) env) = 0
          else fst (LSM_init (a\<lparr>a_block_size := b\<rparr>) env) = - 1
             \<and> pyerr (snd (LSM_init (a\<lparr>a_block_size := b\<rparr>) env)) = Some ValueError
             \<and> lsm (snd (LSM_init (a\<lparr>a_block_size := b\<rparr>) env)) = env)"
proof (cases "\<exists>k. 6 \<le> k \<and> k \<le> 16 \<and> b mod 2 ^ 32 = 2 ^ k")
  case True
  then have "LSM_init_validate (a\<lparr>a_block_size := b\<rparr>) = Inr (st\<lparr>block_size := word_of_int b\<rparr>)"
    by (simp add: validate_other_block_size [OF assms(2)])
  from LSM_init_healthy [OF this assms(1)] True show ?thesis by simp
next
  case False
  then have "LSM_init_validate (a\<lparr>a_block_size := b\<rparr>) = Inl ValueError"
    by (simp add: validate_other_block_size [OF assms(2)])
  from LSM_init_rejected [OF this, of env] False show ?thesis by simp
qed

theorem block_size_accepted_iff_witness:
  "fst (LSM_init (default_args\<lparr>a_block_size := 1024\<rparr>) engine0) = 0
   \<and> fst (LSM_init (default_args\<lparr>a_block_size := 100\<rparr>) engine0) = - 1
   \<and> pyerr (snd (LSM_init (default_args\<lparr>a_block_size := 100\<rparr>) engine0)) = Some ValueError
   \<and> lsm (snd (LSM_init (default_args\<lparr>a_block_size := 100\<rparr>) engine0)) = engine0"
proof -
  have s: "script engine0 = []" by code_simp
  have y: "\<exists>k. 6 \<le> k \<and> k \<le> 16 \<and> (1024::int) mod 2 ^ 32 = 2 ^ k"
    by (rule exI [of _ 10]) simp
  have n: "\<not> (\<exists>k. 6 \<le> k \<and> k \<le> 16 \<and> (100::int) mod 2 ^ 32 = 2 ^ k)"
  proof
    assume "\<exists>k. 6 \<le> k \<and> k \<le> 16 \<and> (100::int) mod 2 ^ 32 = 2 ^ k"
    then obtain k where k: "6 \<le> k" "(100::int) = 2 ^ k" by auto
    then have "(2::int) ^ 6 \<le> 2 ^ k" by (intro power_increasing) simp_all
    moreover have "(2::int) ^ 7 \<le> 2 ^ k \<or> k = 6"
    proof (cases "k = 6")
      case False
      with k have "7 \<le> k" by simp
      then have "(2::int) ^ 7 \<le> 2 ^ k" by (intro power_increasing) simp_all
      then show ?thesis ..
    qed simp
    ultimately show False using k by auto
  qed
  obtain st where v: "LSM_init_validate (default_args\<lparr>a_block_size := 1024\<rparr>) = Inr st"
    using y by (simp add: validate_block_size)
  show ?thesis
    using block_size_accepted_iff [OF s v, of 1024] block_size_accepted_iff [OF s v, of 100] y n
    by simp
qed

text \<open>
  The claim as stated fails at 65536, which is accepted and is not between 64 and
  65535 (and at \<open>2 ^ 32 + 64\<close>, accepted as 64).
\<close>

theorem block_size_65536_counterexample:
  "fst (LSM_init (default_args\<lparr>a_block_size := 65536\<rparr>) engine0) = 0
   \<and> \<not> (64 \<le> (65536::int) \<and> (65536::int) \<le> 65535)
   \<and> fst (LSM_init (default_args\<lparr>a_block_size := 4294967360\<rparr>) engine0) = 0"
proof -
  have s: "script engine0 = []" by code_simp
  have y: "\<exists>k. 6 \<le> k \<and> k \<le> 16 \<and> (65536::int) mod 2 ^ 32 = 2 ^ k"
    by (rule exI [of _ 16]) simp
  have z: "\<exists>k. 6 \<le> k \<and> k \<le> 16 \<and> (4294967360::int) mod 2 ^ 32 = 2 ^ k"
    by (rule exI [of _ 6]) simp
  obtain st where a: "LSM_init_validate (default_args\<lparr>a_block_size := 65536\<rparr>) = Inr st"
    using y by (simp add: validate_block_size)
  obtain st' where b: "LSM_init_validate (default_args\<lparr>a_block_size := 4294967360\<rparr>) = Inr st'"
    using z by (simp add: validate_block_size)
  show ?thesis
    using LSM_init_healthy [OF a s] LSM_init_healthy [OF b s] by simp
qed


section \<open>C10: deleting through the mapping interface and through the method\<close>











section \<open>C7: moving after an exact seek, reading after a fast seek\<close>

text \<open>
  C7. The claim: after a seek with \<open>LSM_SEEK_EQ\<close>, \<^verbatim>\<open>next()\<close> and \<^verbatim>\<open>previous()\<close>
  are reported as misuse, and after a seek with \<open>LSM_SEEK_LEFAST\<close> retrieving the value
  is rejected as misuse, in both cases before any engine call. The code raises for
  \<^verbatim>\<open>previous()\<close> only. On the store \<open>k0 \<mapsto> 0\<close>: after a seek of \<open>k0\<close> with
  \<open>LSM_SEEK_EQ\<close>, \<^verbatim>\<open>previous()\<close> raises \<^verbatim>\<open>RuntimeError\<close> (once
  \<^verbatim>\<open>pylsm_ensure_csr_opened\<close> has probed the cursor with \<^verbatim>\<open>lsm_csr_valid\<close>), while
  \<^verbatim>\<open>next()\<close> returns \<^verbatim>\<open>False\<close> and raises nothing; after a seek with
  \<open>LSM_SEEK_LEFAST\<close>, \<^verbatim>\<open>value()\<close> makes no test of the seek mode and goes to the
  engine, calling \<^verbatim>\<open>lsm_csr_key\<close> and \<^verbatim>\<open>lsm_csr_value\<close> under the mutex.
\<close>

theorem eq_next_not_refused:
  "seek_mode cur_eq = LSM_SEEK_EQ
   \<and> fst (LSMCursor_previous cur_eq db_cur) = None
   \<and> pyerr (snd (snd (LSMCursor_previous cur_eq db_cur))) = Some RuntimeError
   \<and> trace (lsm (snd (snd (LSMCursor_previous cur_eq db_cur)))) =
       trace (lsm db_cur) @ [Call E_csr_valid]
   \<and> fst (LSMCursor_next cur_eq db_cur) = Some Py_False
   \<and> pyerr (snd (snd (LSMCursor_next cur_eq db_cur))) = None
   \<and> seek_mode cur_lefast = LSM_SEEK_LEFAST
   \<and> trace (lsm (snd (LSMCursor_value cur_lefast db_cur))) =
       trace (lsm db_cur) @ [Call E_csr_valid, Call E_csr_valid, MutexEnter,
                             Call E_csr_key, Call E_csr_value, MutexLeave]"
  by code_simp

section \<open>Slices: the cursor primitives under a healthy engine\<close>


lemma csr_moves_step: "csr_moves [Call (dir_step dir)] = [Call (dir_step dir)]"
  by (cases dir) (simp_all add: csr_moves_def dir_step_def)










section \<open>Slices: the loop of \<^verbatim>\<open>pylsm_slice_next\<close>\<close>

declare pylsm_slice_next.simps [simp del]










section \<open>Slices: one pull\<close>









section \<open>Slices: all the pulls\<close>



section \<open>Slices: the counter and the stride\<close>





section \<open>Slices: where the iteration starts\<close>











section \<open>Slices: sorted keys and the whole list\<close>
















text \<open>
  In text mode an entry that is not UTF-8 cannot be handed out: the iteration over the
  store \<open>db_ff\<close> ends in undefined behaviour, not in a list.
\<close>

lemma undecodable_entry_no_list:
  "rows (lsm db_ff) = [(''k0'', [CHR 0xFF])]
   \<and> list_of_slice 3 db_ff Py_None Py_None Py_None = None
   \<and> pyerr (snd (slice_run 3 db_ff Py_None Py_None Py_None)) = Some ProcessCrash"
  by code_simp

section \<open>C6: a slice yields every \<open>step\<close>-th entry within its bounds\<close>



section \<open>C5: the stop key of a slice\<close>




end
